theory Spec2Isabelle
  imports Complex_Main "HOL-Library.Sublist" "HOL-Library.List_Lexorder" "HOL-Library.Char_ord"
begin

section \<open>Python values used by the converter\<close>

text \<open>
  Strings are byte strings (\<open>char list\<close>); object names and keywords of the four vendor
  grammars are ASCII, and \<open>lower\<close>/\<open>upper\<close> fold the ASCII letters only.

  A Python \<open>set\<close> is modelled by the list of its elements in the order in which the set
  iterates them. Python fixes membership but not that order (it depends on the string hash seed of
  the process and on the insertion history), so two equal Python sets are two lists \<open>xs\<close>,
  \<open>ys\<close> with \<open>set xs = set ys\<close>, and code that iterates a set without sorting it sees the list
  itself.
\<close>

type_synonym 'a pyset = "'a list"

definition py_add :: "'a \<Rightarrow> 'a pyset \<Rightarrow> 'a pyset" where
  "py_add x s = (if x \<in> set s then s else s @ [x])"

definition py_update :: "'a list \<Rightarrow> 'a pyset \<Rightarrow> 'a pyset" where
  "py_update xs s = fold py_add xs s"

definition char_lower :: "char \<Rightarrow> char" where
  "char_lower c = (let n = (of_char c :: nat) in if 65 \<le> n \<and> n \<le> 90 then char_of (n + 32) else c)"

definition char_upper :: "char \<Rightarrow> char" where
  "char_upper c = (let n = (of_char c :: nat) in if 97 \<le> n \<and> n \<le> 122 then char_of (n - 32) else c)"

definition lower :: "string \<Rightarrow> string" where
  "lower s = map char_lower s"

definition upper :: "string \<Rightarrow> string" where
  "upper s = map char_upper s"

definition startswith :: "string \<Rightarrow> string \<Rightarrow> bool" where
  "startswith s p = prefix p s"

definition endswith :: "string \<Rightarrow> string \<Rightarrow> bool" where
  "endswith s p = suffix p s"

text \<open>\<open>sub in s\<close> on strings.\<close>

fun contains :: "string \<Rightarrow> string \<Rightarrow> bool" where
  "contains sub [] = (sub = [])"
| "contains sub (c # cs) = (prefix sub (c # cs) \<or> contains sub cs)"

text \<open>\<open>str(n)\<close> for an integer.\<close>

definition digit_char :: "nat \<Rightarrow> char" where
  "digit_char d = char_of (48 + d)"

function str_nat :: "nat \<Rightarrow> string" where
  "str_nat n = (if n < 10 then [digit_char n] else str_nat (n div 10) @ [digit_char (n mod 10)])"
  by pat_completeness auto
termination
  by (relation "measure id") auto

declare str_nat.simps [simp del]

definition str_int :: "int \<Rightarrow> string" where
  "str_int i = (if i < 0 then CHR ''-'' # str_nat (nat (- i)) else str_nat (nat i))"

text \<open>An \<open>Optional[str]\<close> inside an f-string, and its truth value.\<close>

definition fmt_opt :: "string option \<Rightarrow> string" where
  "fmt_opt v = (case v of None \<Rightarrow> ''None'' | Some s \<Rightarrow> s)"

definition truthy :: "string option \<Rightarrow> bool" where
  "truthy v = (case v of None \<Rightarrow> False | Some s \<Rightarrow> s \<noteq> [])"

section \<open>The intermediate representation (models.py)\<close>

text \<open>
  Field names carry a prefix per dataclass, because record selectors share one name space.
  \<open>a_\<close> Address, \<open>s_\<close> Service, \<open>g_\<close> Group, \<open>sg_\<close> ServiceGroup, \<open>i_\<close> Interface,
  \<open>r_\<close> Rule, \<open>n_\<close> NatRule, \<open>sr_\<close> StaticRoute, \<open>tr_\<close> TimeRange, \<open>w_\<close> ConversionWarning.
\<close>

record Interface =
  i_name :: string
  i_zone :: "string option"
  i_ip_address :: "string option"
  i_mask_length :: "string option"
  i_description :: "string option"
  i_vlan_id :: "int option"

record Address =
  a_name :: string
  a_type :: string
  a_value1 :: string
  a_value2 :: "string option"
  a_original_text :: string

record Service =
  s_name :: string
  s_protocol :: string
  s_port :: string
  s_original_text :: string

record Group =
  g_name :: string
  g_members :: "string pyset"
  g_original_text :: string

record ServiceGroup =
  sg_name :: string
  sg_members :: "string pyset"
  sg_original_text :: string

record TimeRange =
  tr_name :: string
  tr_start_time :: string
  tr_start_date :: string
  tr_end_time :: string
  tr_end_date :: string
  tr_original_text :: string

record StaticRoute =
  sr_destination :: string
  sr_next_hop :: string
  sr_interface :: "string option"
  sr_distance :: int
  sr_metric :: "int option"
  sr_route_type :: string
  sr_comment :: "string option"

record Rule =
  r_sequence_id :: int
  r_name :: string
  r_action :: string
  r_remark :: "string option"
  r_enabled :: bool
  r_log :: bool
  r_hit_count :: int
  r_time_range :: "string option"
  r_source_interface :: "string pyset"
  r_destination_interface :: "string pyset"
  r_source :: "string pyset"
  r_destination :: "string pyset"
  r_service :: "string pyset"
  r_application :: "string pyset"
  r_security_profiles :: "(string \<times> string) list"
  r_context :: "string option"
  r_vdom :: "string option"
  r_original_text :: string

record NatRule =
  n_sequence_id :: int
  n_name :: string
  n_original_source :: "string pyset"
  n_translated_source :: "string option"
  n_original_destination :: "string pyset"
  n_translated_destination :: "string option"
  n_original_service :: "string pyset"
  n_translated_service :: "string option"
  n_source_interface :: "string pyset"
  n_destination_interface :: "string pyset"
  n_enabled :: bool
  n_remark :: "string option"
  n_original_text :: string

record ConversionWarning =
  w_category :: string
  w_message :: string
  w_rule_id :: "string option"
  w_suggestion :: "string option"
  w_original_line :: "string option"
  w_severity :: string
  w_details :: "string list"

record SecurityProfile =
  p_name :: string
  p_type :: string
  p_properties :: "(string \<times> string) list"

record FirewallConfig =
  addresses :: "Address pyset"
  services :: "Service pyset"
  address_groups :: "Group pyset"
  service_groups :: "ServiceGroup pyset"
  time_ranges :: "TimeRange pyset"
  rules :: "Rule list"
  interfaces :: "Interface pyset"
  nat_rules :: "NatRule list"
  security_profiles :: "SecurityProfile pyset"
  static_routes :: "StaticRoute list"
  dynamic_routing_config :: string
  conversion_warnings :: "ConversionWarning list"

definition empty_config :: FirewallConfig where
  "empty_config = \<lparr> addresses = [], services = [], address_groups = [], service_groups = [],
     time_ranges = [], rules = [], interfaces = [], nat_rules = [], security_profiles = [],
     static_routes = [],
     dynamic_routing_config = [], conversion_warnings = [] \<rparr>"

text \<open>The dataclass defaults of \<open>Rule\<close> and \<open>NatRule\<close>.\<close>

definition default_rule :: "int \<Rightarrow> string \<Rightarrow> string \<Rightarrow> Rule" where
  "default_rule sid nm act = \<lparr> r_sequence_id = sid, r_name = nm, r_action = act, r_remark = None,
     r_enabled = True, r_log = False, r_hit_count = 0, r_time_range = None,
     r_source_interface = [], r_destination_interface = [], r_source = [], r_destination = [],
     r_service = [], r_application = [], r_security_profiles = [], r_context = None,
     r_vdom = None, r_original_text = [] \<rparr>"

definition default_nat_rule :: "int \<Rightarrow> string \<Rightarrow> NatRule" where
  "default_nat_rule sid nm = \<lparr> n_sequence_id = sid, n_name = nm, n_original_source = [],
     n_translated_source = None, n_original_destination = [], n_translated_destination = None,
     n_original_service = [], n_translated_service = None, n_source_interface = [],
     n_destination_interface = [], n_enabled = True, n_remark = None, n_original_text = [] \<rparr>"

section \<open>The pre-migration analyzer (analyzers/pre\_migration\_analyzer.py)\<close>

record DuplicateObject =
  d_type :: string
  d_original_name :: string
  d_duplicate_names :: "string list"
  d_value :: string
  d_recommendation :: string

record OverlappingRule =
  o_rule_name :: string
  o_rule_id :: int
  o_shadowed_by :: string
  o_shadowed_by_id :: int
  o_reason :: string
  o_recommendation :: string

record SecurityRisk =
  k_severity :: string
  k_category :: string
  k_item_name :: string
  k_description :: string
  k_recommendation :: string

subsection \<open>Zero-hit rules\<close>

definition find_unused_objects :: "FirewallConfig \<Rightarrow> string list" where
  "find_unused_objects config =
     (let has_hit_data = (\<exists>r \<in> set (rules config). r_hit_count r > 0) in
      if has_hit_data
      then map (\<lambda>rule. ''Rule '' @ [CHR 0x27] @ r_name rule @ [CHR 0x27] @ '' (0 hits) - Consider removing'')
               (filter (\<lambda>rule. r_enabled rule \<and> r_hit_count rule = 0) (rules config))
      else [])"

subsection \<open>Duplicate objects\<close>

definition get_address_key :: "Address \<Rightarrow> string" where
  "get_address_key addr =
     (if a_type addr = ''host'' then ''host:'' @ a_value1 addr
      else if a_type addr = ''network'' then ''network:'' @ a_value1 addr @ ''/'' @ fmt_opt (a_value2 addr)
      else if a_type addr = ''range'' then ''range:'' @ a_value1 addr @ ''-'' @ fmt_opt (a_value2 addr)
      else if a_type addr = ''fqdn'' then ''fqdn:'' @ lower (a_value1 addr)
      else ''unknown:'' @ a_value1 addr)"

definition get_service_key :: "Service \<Rightarrow> string" where
  "get_service_key svc =
     (let protocol = (if s_protocol svc \<noteq> [] then lower (s_protocol svc) else ''tcp'');
          port = (if s_port svc \<noteq> [] then s_port svc else ''any'')
      in protocol @ '':'' @ port)"

text \<open>
  \<open>value_map\<close>: a dict from key to the list of objects with that key; the association list keeps
  the dict's insertion order.
\<close>

fun value_map_add :: "string \<Rightarrow> 'a \<Rightarrow> (string \<times> 'a list) list \<Rightarrow> (string \<times> 'a list) list" where
  "value_map_add key x [] = [(key, [x])]"
| "value_map_add key x ((k, xs) # m) =
     (if k = key then (k, xs @ [x]) # m else (k, xs) # value_map_add key x m)"

definition build_value_map :: "('a \<Rightarrow> string) \<Rightarrow> 'a list \<Rightarrow> (string \<times> 'a list) list" where
  "build_value_map keyf objs = fold (\<lambda>x m. value_map_add (keyf x) x m) objs []"

definition duplicates_of :: "string \<Rightarrow> ('a \<Rightarrow> string) \<Rightarrow> (string \<times> 'a list) list \<Rightarrow> DuplicateObject list" where
  "duplicates_of ty namef m =
     concat (map (\<lambda>(key, objs).
        if length objs > 1
        then [\<lparr> d_type = ty, d_original_name = namef (hd objs),
                d_duplicate_names = map namef (tl objs), d_value = key,
                d_recommendation = ''Keep '' @ [CHR 0x27] @ namef (hd objs) @ [CHR 0x27] @ '', replace ''
                     @ str_nat (length objs - 1) @ '' duplicate reference(s)'' \<rparr>]
        else []) m)"

definition find_duplicate_objects :: "FirewallConfig \<Rightarrow> DuplicateObject list" where
  "find_duplicate_objects config =
     duplicates_of ''address'' a_name (build_value_map get_address_key (addresses config))
     @ duplicates_of ''service'' s_name (build_value_map get_service_key (services config))"

subsection \<open>Shadowed rules\<close>

definition is_subset_or_any :: "string pyset \<Rightarrow> string pyset \<Rightarrow> bool" where
  "is_subset_or_any specific broader =
     (let broader_lower = set (map lower broader);
          specific_lower = set (map lower specific)
      in if ''any'' \<in> broader_lower \<or> ''all'' \<in> broader_lower then True
         else if specific_lower = {} then False
         else specific_lower \<subseteq> broader_lower)"

definition is_shadowing :: "Rule \<Rightarrow> Rule \<Rightarrow> bool" where
  "is_shadowing broader_rule specific_rule =
     (if r_action broader_rule \<noteq> r_action specific_rule then False
      else if \<not> is_subset_or_any (r_source specific_rule) (r_source broader_rule) then False
      else if \<not> is_subset_or_any (r_destination specific_rule) (r_destination broader_rule) then False
      else if \<not> is_subset_or_any (r_service specific_rule) (r_service broader_rule) then False
      else True)"

definition mk_overlap :: "nat \<Rightarrow> Rule \<Rightarrow> nat \<Rightarrow> Rule \<Rightarrow> OverlappingRule" where
  "mk_overlap i rule1 j rule2 =
     \<lparr> o_rule_name = r_name rule2, o_rule_id = int j + 1,
       o_shadowed_by = r_name rule1, o_shadowed_by_id = int i + 1,
       o_reason = ''Broader rule at position '' @ str_nat (i + 1) @ '' will match first'',
       o_recommendation = ''Move rule '' @ [CHR 0x27] @ r_name rule2 @ [CHR 0x27] @ '' above ''
          @ [CHR 0x27] @ r_name rule1 @ [CHR 0x27] @ '' or consolidate rules'' \<rparr>"

text \<open>The two nested \<open>enumerate\<close> loops; \<open>i \<ge> j\<close> is the \<open>continue\<close>.\<close>

definition overlaps_inner :: "Rule list \<Rightarrow> nat \<Rightarrow> OverlappingRule list" where
  "overlaps_inner rs i =
     concat (map (\<lambda>j. if i \<ge> j then []
                       else if is_shadowing (rs ! i) (rs ! j) then [mk_overlap i (rs ! i) j (rs ! j)]
                       else [])
                 [0..<length rs])"

definition find_overlapping_rules :: "FirewallConfig \<Rightarrow> OverlappingRule list" where
  "find_overlapping_rules config =
     concat (map (overlaps_inner (rules config)) [0..<length (rules config)])"

subsection \<open>Security risks\<close>

definition allow_words :: "string list" where
  "allow_words = [''allow'', ''permit'', ''accept'']"

definition has_any_or_all :: "string pyset \<Rightarrow> bool" where
  "has_any_or_all s = (''any'' \<in> set (map lower s) \<or> ''all'' \<in> set (map lower s))"

definition is_any_any_any :: "Rule \<Rightarrow> bool" where
  "is_any_any_any rule =
     (let action_lower = lower (r_action rule) in
      if action_lower \<notin> set allow_words then False
      else
        (let src_any = (r_source rule = [] \<or> has_any_or_all (r_source rule));
             dst_any = (r_destination rule = [] \<or> has_any_or_all (r_destination rule));
             svc_any = (r_service rule = [] \<or> has_any_or_all (r_service rule))
         in src_any \<and> dst_any \<and> svc_any))"

text \<open>
  The three characters between \<open>ANY source\<close> and \<open>ANY destination\<close> in the source file
  (U+201A, U+00DC, U+00ED), as the bytes of their UTF-8 encoding.
\<close>

definition arrow :: string where
  "arrow = [CHR 0xE2, CHR 0x80, CHR 0x9A, CHR 0xC3, CHR 0x9C, CHR 0xC3, CHR 0xAD]"

definition risk_any_any_any :: "Rule \<Rightarrow> SecurityRisk" where
  "risk_any_any_any rule = \<lparr> k_severity = ''critical'', k_category = ''any-any-any'',
     k_item_name = r_name rule,
     k_description = ''Rule allows ANY source '' @ arrow @ '' ANY destination '' @ arrow
        @ '' ANY service (unrestricted access)'',
     k_recommendation = ''Restrict at least one of: source, destination, or service to specific objects'' \<rparr>"

definition risk_disabled :: "Rule \<Rightarrow> SecurityRisk" where
  "risk_disabled rule = \<lparr> k_severity = ''low'', k_category = ''disabled-rule'',
     k_item_name = r_name rule,
     k_description = ''Rule is disabled and may be obsolete'',
     k_recommendation = ''Review and remove if no longer needed to reduce clutter'' \<rparr>"

definition risk_no_logging :: "Rule \<Rightarrow> SecurityRisk" where
  "risk_no_logging rule = \<lparr> k_severity = ''medium'', k_category = ''no-logging'',
     k_item_name = r_name rule,
     k_description = ''Allow rule has no logging enabled (audit trail gap)'',
     k_recommendation = ''Enable logging for security monitoring and compliance'' \<rparr>"

definition risk_any_service :: "Rule \<Rightarrow> SecurityRisk" where
  "risk_any_service rule = \<lparr> k_severity = ''high'', k_category = ''any-service'',
     k_item_name = r_name rule,
     k_description = ''Rule allows ANY service/port (potential security gap)'',
     k_recommendation = ''Specify explicit services (HTTP, HTTPS, etc.) instead of '' @ [CHR 0x27]
        @ ''any'' @ [CHR 0x27] \<rparr>"

definition risk_no_description :: "Rule \<Rightarrow> SecurityRisk" where
  "risk_no_description rule = \<lparr> k_severity = ''low'', k_category = ''no-description'',
     k_item_name = r_name rule,
     k_description = ''Rule has no description (reduces maintainability)'',
     k_recommendation = ''Add description explaining the rule'' @ [CHR 0x27]
        @ ''s business purpose'' \<rparr>"

text \<open>\<open>str.strip()\<close> with no argument removes white space at both ends.\<close>

definition is_space :: "char \<Rightarrow> bool" where
  "is_space c = (let n = (of_char c :: nat) in (9 \<le> n \<and> n \<le> 13) \<or> (28 \<le> n \<and> n \<le> 32))"

definition lstrip :: "string \<Rightarrow> string" where
  "lstrip s = dropWhile is_space s"

definition rstrip :: "string \<Rightarrow> string" where
  "rstrip s = rev (dropWhile is_space (rev s))"

definition strip :: "string \<Rightarrow> string" where
  "strip s = rstrip (lstrip s)"

definition no_remark :: "Rule \<Rightarrow> bool" where
  "no_remark rule = (case r_remark rule of None \<Rightarrow> True | Some t \<Rightarrow> t = [] \<or> strip t = [])"

definition find_security_risks :: "FirewallConfig \<Rightarrow> SecurityRisk list" where
  "find_security_risks config =
     map risk_any_any_any (filter is_any_any_any (rules config))
     @ map risk_disabled (filter (\<lambda>rule. \<not> r_enabled rule) (rules config))
     @ map risk_no_logging
         (filter (\<lambda>rule. lower (r_action rule) \<in> set allow_words \<and> \<not> r_log rule) (rules config))
     @ map risk_any_service
         (filter (\<lambda>rule. lower (r_action rule) \<in> set allow_words \<and> has_any_or_all (r_service rule))
            (rules config))
     @ map risk_no_description (filter no_remark (rules config))"

subsection \<open>Scores\<close>

text \<open>
  The weighted sum is computed by Python in binary floating point. Every sub-score is an integer
  in \<open>[0, 100]\<close>, so each product is a multiple of \<open>1/4\<close> below \<open>2\<^sup>7\<close> and each sum is exact;
  the rational numbers below are therefore the floating-point values. \<open>int(x)\<close> truncates
  towards zero.
\<close>

definition py_int_of_float :: "rat \<Rightarrow> int" where
  "py_int_of_float x = (if x \<ge> 0 then \<lfloor>x\<rfloor> else \<lceil>x\<rceil>)"

definition severity_weight :: "SecurityRisk \<Rightarrow> int" where
  "severity_weight risk =
     (if k_severity risk = ''critical'' then 20
      else if k_severity risk = ''high'' then 10
      else if k_severity risk = ''medium'' then 5
      else 2)"

record Scores =
  optimization_score :: int
  security_score :: int
  complexity_score :: int
  overall_score :: int

definition calculate_scores ::
  "FirewallConfig \<Rightarrow> DuplicateObject list \<Rightarrow> OverlappingRule list \<Rightarrow> SecurityRisk list
     \<Rightarrow> string list \<Rightarrow> Scores" where
  "calculate_scores config duplicates overlaps risks unused =
     (let optimization_deductions = int (length duplicates) * 5 + int (length unused) * 2;
          optimization = max 0 (min 100 (100 - optimization_deductions));
          security_deductions = fold (\<lambda>risk acc. acc + severity_weight risk) risks 0;
          security = max 0 (min 100 (100 - security_deductions));
          total_rules = length (rules config);
          complexity_deductions = int (length overlaps) * 10
             + (if total_rules > 500 then 20 else if total_rules > 200 then 10 else 0);
          complexity = max 0 (min 100 (100 - complexity_deductions));
          overall = py_int_of_float
             (of_int optimization * (25 / 100) + of_int security * (50 / 100)
                + of_int complexity * (25 / 100))
      in \<lparr> optimization_score = optimization, security_score = security,
           complexity_score = complexity, overall_score = overall \<rparr>)"

text \<open>\<open>analyze\<close>: the findings and the scores of the report.\<close>

record AnalysisReport =
  total_objects :: nat
  total_rules :: nat
  total_nat_rules :: nat
  duplicate_objects :: "DuplicateObject list"
  overlapping_rules :: "OverlappingRule list"
  security_risks :: "SecurityRisk list"
  unused_objects :: "string list"
  scores :: Scores

definition analyze :: "FirewallConfig \<Rightarrow> AnalysisReport" where
  "analyze config =
     (let duplicates = find_duplicate_objects config;
          overlaps = find_overlapping_rules config;
          risks = find_security_risks config;
          unused = find_unused_objects config
      in \<lparr> total_objects = length (addresses config) + length (services config),
           total_rules = length (rules config),
           total_nat_rules = length (nat_rules config),
           duplicate_objects = duplicates,
           overlapping_rules = overlaps,
           security_risks = risks,
           unused_objects = unused,
           scores = calculate_scores config duplicates overlaps risks unused \<rparr>)"

section \<open>More Python string operations\<close>

text \<open>
  \<open>s.replace(old, new)\<close>, scanning from the left without overlap. The converter never calls it
  with an empty \<open>old\<close>; the model returns \<open>s\<close> in that case.
\<close>

function replace :: "string \<Rightarrow> string \<Rightarrow> string \<Rightarrow> string" where
  "replace old new s =
     (if old = [] then s
      else if prefix old s then new @ replace old new (drop (length old) s)
      else (case s of [] \<Rightarrow> [] | c # cs \<Rightarrow> c # replace old new cs))"
  by pat_completeness auto
termination
  by (relation "measure (\<lambda>(old, new, s). length s)") (auto simp: prefix_def)

declare replace.simps [simp del]

text \<open>\<open>sep.join(xs)\<close>.\<close>

fun join :: "string \<Rightarrow> string list \<Rightarrow> string" where
  "join sep [] = []"
| "join sep [x] = x"
| "join sep (x # y # ys) = x @ sep @ join sep (y # ys)"

text \<open>\<open>s.split(' ', n)\<close>: at most \<open>n\<close> cuts, each at a single space.\<close>

fun split_sp :: "nat \<Rightarrow> string \<Rightarrow> string list" where
  "split_sp 0 s = [s]"
| "split_sp (Suc n) s =
     (if CHR '' '' \<in> set s
      then takeWhile (\<lambda>c. c \<noteq> CHR '' '') s # split_sp n (tl (dropWhile (\<lambda>c. c \<noteq> CHR '' '') s))
      else [s])"

text \<open>\<open>s.split()\<close>: the maximal runs of characters that are not white space.\<close>

function split_ws :: "string \<Rightarrow> string list" where
  "split_ws s =
     (let t = dropWhile is_space s in
      if t = [] then []
      else takeWhile (\<lambda>c. \<not> is_space c) t # split_ws (dropWhile (\<lambda>c. \<not> is_space c) t))"
  by pat_completeness auto
termination
proof (relation "measure length")
  show "wf (measure length)" by simp
next
  fix s t :: string
  assume t: "t = dropWhile is_space s" and ne: "t \<noteq> []"
  have "length (dropWhile (\<lambda>c. \<not> is_space c) t) < length t"
  proof (cases t)
    case Nil
    then show ?thesis using ne by simp
  next
    case (Cons c cs)
    have "dropWhile is_space s \<noteq> []" using t ne by simp
    from hd_dropWhile[OF this] have "\<not> is_space c"
      using t Cons by (metis list.sel(1))
    then have "dropWhile (\<lambda>c. \<not> is_space c) t = dropWhile (\<lambda>c. \<not> is_space c) cs"
      using Cons by simp
    then show ?thesis
      using Cons length_dropWhile_le[of "\<lambda>c. \<not> is_space c" cs] by simp
  qed
  moreover have "length t \<le> length s"
    using t length_dropWhile_le[of is_space s] by simp
  ultimately show "(dropWhile (\<lambda>c. \<not> is_space c) t, s) \<in> measure length"
    by simp
qed

declare split_ws.simps [simp del]

text \<open>\<open>s.lstrip(chars)\<close> and \<open>s.strip(chars)\<close> with an explicit character set.\<close>

definition lstrip_chars :: "string \<Rightarrow> string \<Rightarrow> string" where
  "lstrip_chars chars s = dropWhile (\<lambda>c. c \<in> set chars) s"

definition strip_chars :: "string \<Rightarrow> string \<Rightarrow> string" where
  "strip_chars chars s = rev (dropWhile (\<lambda>c. c \<in> set chars) (rev (lstrip_chars chars s)))"

section \<open>Regular expressions (the fragment of \<open>re\<close> that the converter uses)\<close>

text \<open>
  A pattern is matched by backtracking in Python's order of preference. \<open>rx_run r (s, caps)\<close>
  lists every way in which \<open>r\<close> matches a prefix of \<open>s\<close>, as the rest of the input and the
  captured groups, in that order; the head of the list is the match that \<open>re\<close> returns.
  Repetition is needed on character classes only (\<open>.+?\<close>, \<open>.*\<close>, \<open>\S+\<close>, \<open>\d{1,3}\<close>).
\<close>

datatype cclass =
    CAny                          \<comment> \<open>\<open>.\<close>\<close>
  | CSpace                        \<comment> \<open>\<open>\s\<close>\<close>
  | CDigit                        \<comment> \<open>\<open>\d\<close>\<close>
  | CWord                         \<comment> \<open>\<open>\w\<close>\<close>
  | CChars string                 \<comment> \<open>one of the listed characters\<close>
  | CNot cclass
  | COr cclass cclass

definition is_digit :: "char \<Rightarrow> bool" where
  "is_digit c = (let n = (of_char c :: nat) in 48 \<le> n \<and> n \<le> 57)"

definition is_alpha :: "char \<Rightarrow> bool" where
  "is_alpha c = (let n = (of_char c :: nat) in (65 \<le> n \<and> n \<le> 90) \<or> (97 \<le> n \<and> n \<le> 122))"

fun in_class :: "cclass \<Rightarrow> char \<Rightarrow> bool" where
  "in_class CAny c = (c \<noteq> CHR 0x0A)"
| "in_class CSpace c = is_space c"
| "in_class CDigit c = is_digit c"
| "in_class CWord c = (is_alpha c \<or> is_digit c \<or> c = CHR ''_'')"
| "in_class (CChars cs) c = (c \<in> set cs)"
| "in_class (CNot k) c = (\<not> in_class k c)"
| "in_class (COr k1 k2) c = (in_class k1 c \<or> in_class k2 c)"

datatype rx =
    Lit string                          \<comment> \<open>literal text\<close>
  | LitI string                         \<comment> \<open>literal text under \<open>re.IGNORECASE\<close>\<close>
  | Cls cclass                          \<comment> \<open>one character of a class\<close>
  | Rep cclass nat "nat option" bool    \<comment> \<open>a class repeated: least, most, greedy\<close>
  | Seq rx rx
  | Alt rx rx
  | Opt rx                              \<comment> \<open>\<open>(...)?\<close>\<close>
  | Grp nat rx                          \<comment> \<open>capturing group with its number\<close>
  | Eol                                 \<comment> \<open>\<open>$\<close>\<close>

type_synonym caps = "(nat \<times> string) list"

definition rep_counts :: "nat \<Rightarrow> nat \<Rightarrow> bool \<Rightarrow> nat list" where
  "rep_counts lo hi greedy = (if greedy then rev [lo..<Suc hi] else [lo..<Suc hi])"

fun rx_run :: "rx \<Rightarrow> string \<times> caps \<Rightarrow> (string \<times> caps) list" where
  "rx_run (Lit t) (s, caps) = (if prefix t s then [(drop (length t) s, caps)] else [])"
| "rx_run (LitI t) (s, caps) =
     (if length t \<le> length s \<and> lower (take (length t) s) = lower t
      then [(drop (length t) s, caps)] else [])"
| "rx_run (Cls k) (s, caps) =
     (case s of [] \<Rightarrow> [] | c # cs \<Rightarrow> if in_class k c then [(cs, caps)] else [])"
| "rx_run (Rep k lo hi greedy) (s, caps) =
     (let n = length (takeWhile (in_class k) s);
          m = (case hi of None \<Rightarrow> n | Some h \<Rightarrow> min h n)
      in map (\<lambda>i. (drop i s, caps)) (rep_counts lo m greedy))"
| "rx_run (Seq r1 r2) st = concat (map (rx_run r2) (rx_run r1 st))"
| "rx_run (Alt r1 r2) st = rx_run r1 st @ rx_run r2 st"
| "rx_run (Opt r) st = rx_run r st @ [st]"
| "rx_run (Grp g r) (s, caps) =
     map (\<lambda>(s', caps'). (s', (g, take (length s - length s') s) # caps')) (rx_run r (s, caps))"
| "rx_run Eol (s, caps) = (if s = [] \<or> s = [CHR 0x0A] then [(s, caps)] else [])"

text \<open>A sequence of patterns.\<close>

fun seqs :: "rx list \<Rightarrow> rx" where
  "seqs [] = Lit []"
| "seqs [r] = r"
| "seqs (r # rs) = Seq r (seqs rs)"

text \<open>\<open>re.match\<close> (at the start of the string) and \<open>re.search\<close> (leftmost start).\<close>

definition rx_match :: "rx \<Rightarrow> string \<Rightarrow> (string \<times> caps) option" where
  "rx_match r s = (case rx_run r (s, []) of [] \<Rightarrow> None | m # _ \<Rightarrow> Some m)"

fun rx_search :: "rx \<Rightarrow> string \<Rightarrow> (string \<times> caps) option" where
  "rx_search r [] = rx_match r []"
| "rx_search r (c # cs) =
     (case rx_match r (c # cs) of None \<Rightarrow> rx_search r cs | Some m \<Rightarrow> Some m)"

text \<open>\<open>m.group(g)\<close>; \<open>None\<close> for a group that took no part in the match.\<close>

definition group :: "caps \<Rightarrow> nat \<Rightarrow> string option" where
  "group caps g = map_of caps g"

text \<open>
  \<open>re.findall\<close>, as the list of the captures of the successive matches. The patterns it is used
  with match no empty string; a match that consumes nothing is skipped.
\<close>

function rx_findall :: "rx \<Rightarrow> string \<Rightarrow> caps list" where
  "rx_findall r s =
     (case s of
        [] \<Rightarrow> []
      | c # cs \<Rightarrow>
          (case rx_match r s of
             None \<Rightarrow> rx_findall r cs
           | Some (rest, caps) \<Rightarrow>
               if length rest < length s then caps # rx_findall r rest else rx_findall r cs))"
  by pat_completeness auto
termination
  by (relation "measure (\<lambda>(r, s). length s)") auto

declare rx_findall.simps [simp del]

section \<open>The Fortinet parser (parsers/fortinet\_parser.py)\<close>

datatype py_error = IndexError | AttributeError | ValueError

definition dq :: string where
  "dq = [CHR 0x22]"

definition nl :: string where
  "nl = [CHR 0x0A]"

text \<open>\<open>value[1:-1] if value.startswith('"') and value.endswith('"') else value\<close>\<close>

definition unquote :: "string \<Rightarrow> string" where
  "unquote v = (if startswith v dq \<and> endswith v dq then butlast (tl v) else v)"

definition get_edit_value :: "string \<Rightarrow> string" where
  "get_edit_value line =
     (let parts = split_sp 1 line in
      if length parts < 2 then [] else unquote (strip (parts ! 1)))"

definition get_set_value :: "string \<Rightarrow> string" where
  "get_set_value line =
     (let parts = split_sp 2 line in
      if length parts < 3 then [] else unquote (strip (parts ! 2)))"

text \<open>The pattern \<open>(?:"([^"]+)"|(\S+))\<close> of \<open>_extract_multi_values\<close>.\<close>

definition multi_value_rx :: rx where
  "multi_value_rx =
     Alt (seqs [Lit dq, Grp 1 (Rep (CNot (CChars dq)) 1 None True), Lit dq])
         (Grp 2 (Rep (CNot CSpace) 1 None True))"

text \<open>\<open>m[0] or m[1]\<close> on a \<open>findall\<close> tuple; a group that took no part is the empty string.\<close>

definition first_or_second :: "caps \<Rightarrow> string" where
  "first_or_second c =
     (let g1 = (case group c 1 of None \<Rightarrow> [] | Some g \<Rightarrow> g);
          g2 = (case group c 2 of None \<Rightarrow> [] | Some g \<Rightarrow> g)
      in if g1 \<noteq> [] then g1 else g2)"

definition extract_multi_values :: "string \<Rightarrow> string list" where
  "extract_multi_values line =
     (let parts = split_sp 2 line in
      if length parts < 3 then []
      else map first_or_second (rx_findall multi_value_rx (parts ! 2)))"





fun dict_set :: "'k \<Rightarrow> 'v \<Rightarrow> ('k \<times> 'v) list \<Rightarrow> ('k \<times> 'v) list" where
  "dict_set k v [] = [(k, v)]"
| "dict_set k v ((k', v') # d) = (if k' = k then (k, v) # d else (k', v') # dict_set k v d)"

subsection \<open>\<open>config firewall service custom\<close>\<close>

record svc_scan =
  tcp_port :: "string option"
  udp_port :: "string option"
  protocol :: "string option"






subsection \<open>The second pass: \<open>_update_references\<close>\<close>



subsection \<open>\<open>config firewall policy\<close>\<close>

record policy_scan =
  p_rule :: Rule
  is_nat_enabled :: bool
  nat_pool_name :: "string option"

definition policy_scan_init :: "int \<Rightarrow> string list \<Rightarrow> string \<Rightarrow> policy_scan" where
  "policy_scan_init sequence_id entry_lines original_seq_id =
     \<lparr> p_rule = (default_rule sequence_id (''Rule_'' @ original_seq_id) ''deny'')
                   \<lparr> r_original_text := join nl entry_lines \<rparr>,
       is_nat_enabled = False, nat_pool_name = None \<rparr>"

definition upd_rule :: "(Rule \<Rightarrow> Rule) \<Rightarrow> policy_scan \<Rightarrow> policy_scan" where
  "upd_rule f sc = sc \<lparr> p_rule := f (p_rule sc) \<rparr>"

definition policy_scan_line :: "string \<Rightarrow> policy_scan \<Rightarrow> policy_scan" where
  "policy_scan_line line sc =
     (if startswith line ''set name''
        then upd_rule (\<lambda>r. r \<lparr> r_name := get_set_value line \<rparr>) sc
      else if startswith line ''set srcintf''
        then upd_rule (\<lambda>r. r \<lparr> r_source_interface :=
                                   py_update (extract_multi_values line) (r_source_interface r) \<rparr>) sc
      else if startswith line ''set dstintf''
        then upd_rule (\<lambda>r. r \<lparr> r_destination_interface :=
                                   py_update (extract_multi_values line) (r_destination_interface r) \<rparr>) sc
      else if startswith line ''set srcaddr''
        then upd_rule (\<lambda>r. r \<lparr> r_source := py_update (extract_multi_values line) (r_source r) \<rparr>) sc
      else if startswith line ''set dstaddr''
        then upd_rule (\<lambda>r. r \<lparr> r_destination :=
                                   py_update (extract_multi_values line) (r_destination r) \<rparr>) sc
      else if startswith line ''set service''
        then upd_rule (\<lambda>r. r \<lparr> r_service := py_update (extract_multi_values line) (r_service r) \<rparr>) sc
      else if startswith line ''set action''
        then upd_rule (\<lambda>r. r \<lparr> r_action :=
                                   (if get_set_value line = ''accept'' then ''allow'' else ''deny'') \<rparr>) sc
      else if startswith line ''set status''
        then upd_rule (\<lambda>r. r \<lparr> r_enabled := (get_set_value line = ''enable'') \<rparr>) sc
      else if startswith line ''set comments''
        then upd_rule (\<lambda>r. r \<lparr> r_remark := Some (get_set_value line) \<rparr>) sc
      else if startswith line ''set nat enable''
        then sc \<lparr> is_nat_enabled := True \<rparr>
      else if startswith line ''set poolname''
        then sc \<lparr> nat_pool_name := Some (get_set_value line) \<rparr>
      else if startswith line ''set ips-sensor''
        then upd_rule (\<lambda>r. r \<lparr> r_security_profiles :=
                                   dict_set ''ips'' (get_set_value line) (r_security_profiles r) \<rparr>) sc
      else if startswith line ''set av-profile''
        then upd_rule (\<lambda>r. r \<lparr> r_security_profiles :=
                                   dict_set ''av'' (get_set_value line) (r_security_profiles r) \<rparr>) sc
      else sc)"

text \<open>The three defaults applied after the loop.\<close>

definition policy_defaults :: "Rule \<Rightarrow> Rule" where
  "policy_defaults r =
     r \<lparr> r_source := (if r_source r = [] then py_add ''all'' (r_source r) else r_source r),
         r_destination := (if r_destination r = [] then py_add ''all'' (r_destination r)
                           else r_destination r),
         r_service := (if r_service r = [] then py_add ''ALL'' (r_service r) else r_service r) \<rparr>"

definition policy_nat_rule :: "int \<Rightarrow> string list \<Rightarrow> Rule \<Rightarrow> string option \<Rightarrow> NatRule" where
  "policy_nat_rule sequence_id entry_lines rule pool =
     \<lparr> n_sequence_id = sequence_id, n_name = ''NAT_'' @ r_name rule,
       n_original_source = r_source rule, n_translated_source = pool,
       n_original_destination = r_destination rule, n_translated_destination = None,
       n_original_service = r_service rule, n_translated_service = None,
       n_source_interface = r_source_interface rule,
       n_destination_interface = r_destination_interface rule,
       n_enabled = r_enabled rule, n_remark = r_remark rule,
       n_original_text = join nl entry_lines \<rparr>"

definition parse_policy_entry ::
  "string list \<Rightarrow> FirewallConfig \<Rightarrow> int \<Rightarrow> py_error + FirewallConfig" where
  "parse_policy_entry entry_lines config sequence_id =
     (case entry_lines of
        [] \<Rightarrow> Inl IndexError
      | l0 # ls \<Rightarrow>
          (let original_seq_id = get_edit_value l0;
               sc = fold policy_scan_line ls (policy_scan_init sequence_id entry_lines original_seq_id);
               rule = policy_defaults (p_rule sc);
               config1 = config \<lparr> rules := rules config @ [rule] \<rparr>
           in if is_nat_enabled sc \<and> truthy (nat_pool_name sc)
              then Inr (config1 \<lparr> nat_rules := nat_rules config1
                          @ [policy_nat_rule sequence_id entry_lines rule (nat_pool_name sc)] \<rparr>)
              else Inr config1))"

section \<open>The Cisco ASA parser (parsers/cisco\_asa\_parser.py)\<close>

subsection \<open>Names\<close>

definition get_new_name :: "string \<Rightarrow> string \<Rightarrow> string pyset \<Rightarrow> string" where
  "get_new_name original_name context_name duplicates =
     (if original_name \<in> set duplicates \<and> context_name \<noteq> ''default''
      then original_name @ ''_'' @ context_name
      else original_name)"

subsection \<open>The patterns of the manual NAT lines\<close>

text \<open>\<open>\S+\<close> and \<open>\S+?\<close>.\<close>

definition non_space :: rx where
  "non_space = Rep (CNot CSpace) 1 None True"

definition non_space_lazy :: rx where
  "non_space_lazy = Rep (CNot CSpace) 1 None False"

text \<open>\<open>nat \((.+?),(.+?)\).*\<close>, the common head of the four patterns.\<close>

definition nat_head :: "rx list" where
  "nat_head = [Lit ''nat ('', Grp 1 (Rep CAny 1 None False), Lit '','',
               Grp 2 (Rep CAny 1 None False), Lit '')'', Rep CAny 0 None True]"

text \<open>\<open>nat \((.+?),(.+?)\).*source static (\S+) (\S+) destination static (\S+) (\S+)\<close>\<close>

definition RE_MANUAL_TWICE_NAT :: rx where
  "RE_MANUAL_TWICE_NAT =
     seqs (nat_head @ [Lit ''source static '', Grp 3 non_space, Lit '' '', Grp 4 non_space,
                       Lit '' destination static '', Grp 5 non_space, Lit '' '', Grp 6 non_space])"

text \<open>\<open>nat \((.+?),(.+?)\).*source static (\S+) (\S+?)( unidirectional)?$\<close>\<close>

definition RE_MANUAL_STATIC_NAT :: rx where
  "RE_MANUAL_STATIC_NAT =
     seqs (nat_head @ [Lit ''source static '', Grp 3 non_space, Lit '' '', Grp 4 non_space_lazy,
                       Opt (Grp 5 (Lit '' unidirectional'')), Eol])"

text \<open>\<open>nat \((.+?),(.+?)\).*source dynamic (\S+) interface\<close>\<close>

definition RE_MANUAL_DYNAMIC_PAT :: rx where
  "RE_MANUAL_DYNAMIC_PAT =
     seqs (nat_head @ [Lit ''source dynamic '', Grp 3 non_space, Lit '' interface''])"

text \<open>\<open>nat \((.+?),(.+?)\).*source dynamic (\S+) (\S+)\<close>\<close>

definition RE_MANUAL_DYNAMIC_NAT :: rx where
  "RE_MANUAL_DYNAMIC_NAT =
     seqs (nat_head @ [Lit ''source dynamic '', Grp 3 non_space, Lit '' '', Grp 4 non_space])"

text \<open>
  A member of \<open>m.groups()\<close> that the code uses as a string. In the four patterns the groups
  read this way take part in every match.
\<close>

definition group_str :: "caps \<Rightarrow> nat \<Rightarrow> string" where
  "group_str m g = (case group m g of None \<Rightarrow> [] | Some s \<Rightarrow> s)"

subsection \<open>\<open>_parse_nat_rule_line\<close>\<close>

text \<open>
  \<open>parse\<close> calls \<open>_parse_nat_rule_line\<close> on each cleaned line that starts with \<open>nat (\<close>
  (compared in lower case). The function appends to \<open>config.nat_rules\<close> and returns the next
  sequence number; here it returns the configuration as well.
\<close>

definition parse_nat_rule_line ::
  "string \<Rightarrow> FirewallConfig \<Rightarrow> string \<Rightarrow> string pyset \<Rightarrow> int \<Rightarrow> FirewallConfig \<times> int" where
  "parse_nat_rule_line line config context_name duplicates nat_seq_counter =
     (let is_enabled = (\<not> contains ''inactive'' line) in
      case rx_search RE_MANUAL_TWICE_NAT line of
        Some (rest, m) \<Rightarrow>
          (let src_intf = group_str m 1; dst_intf = group_str m 2;
               orig_src = group_str m 3; mapped_src = group_str m 4;
               orig_dst = group_str m 5; mapped_dst = group_str m 6
           in (config \<lparr> nat_rules := nat_rules config @
                 [(default_nat_rule nat_seq_counter (''TwiceNAT_'' @ orig_src @ ''_'' @ orig_dst))
                    \<lparr> n_source_interface := [strip src_intf],
                      n_destination_interface := [strip dst_intf],
                      n_original_source := [get_new_name orig_src context_name duplicates],
                      n_translated_source := Some (get_new_name mapped_src context_name duplicates),
                      n_original_destination := [get_new_name orig_dst context_name duplicates],
                      n_translated_destination := Some (get_new_name mapped_dst context_name duplicates),
                      n_enabled := is_enabled, n_original_text := line \<rparr>] \<rparr>,
               nat_seq_counter + 1))
      | None \<Rightarrow>
     (case rx_search RE_MANUAL_STATIC_NAT line of
        Some (rest, m) \<Rightarrow>
          (let src_intf = group_str m 1; dst_intf = group_str m 2;
               orig_src = group_str m 3; unidirectional = group m 5;
               mapped_src = strip (group_str m 4);
               config1 = config \<lparr> nat_rules := nat_rules config @
                 [(default_nat_rule nat_seq_counter (''StaticNAT_'' @ orig_src))
                    \<lparr> n_source_interface := [strip src_intf],
                      n_destination_interface := [strip dst_intf],
                      n_original_source := [get_new_name orig_src context_name duplicates],
                      n_translated_source := Some (get_new_name mapped_src context_name duplicates),
                      n_enabled := is_enabled, n_original_text := line \<rparr>] \<rparr>;
               counter1 = nat_seq_counter + 1
           in if \<not> truthy unidirectional
              then (config1 \<lparr> nat_rules := nat_rules config1 @
                      [(default_nat_rule counter1 (''StaticNAT_Reverse_'' @ orig_src))
                         \<lparr> n_source_interface := [strip dst_intf],
                           n_destination_interface := [strip src_intf],
                           n_original_destination := [get_new_name mapped_src context_name duplicates],
                           n_translated_destination := Some (get_new_name orig_src context_name duplicates),
                           n_enabled := is_enabled,
                           n_original_text := ''! Auto-generated reverse NAT for '' @ orig_src \<rparr>] \<rparr>,
                    counter1 + 1)
              else (config1, counter1))
      | None \<Rightarrow>
     (case rx_search RE_MANUAL_DYNAMIC_PAT line of
        Some (rest, m) \<Rightarrow>
          (let src_intf = group_str m 1; dst_intf = group_str m 2; orig_src = group_str m 3
           in (config \<lparr> nat_rules := nat_rules config @
                 [(default_nat_rule nat_seq_counter (''DynamicPAT_'' @ orig_src))
                    \<lparr> n_source_interface := [strip src_intf],
                      n_destination_interface := [strip dst_intf],
                      n_original_source := [get_new_name orig_src context_name duplicates],
                      n_translated_source := Some ''dynamic-ip-and-port'',
                      n_enabled := is_enabled, n_original_text := line \<rparr>] \<rparr>,
               nat_seq_counter + 1))
      | None \<Rightarrow>
     (case rx_search RE_MANUAL_DYNAMIC_NAT line of
        Some (rest, m) \<Rightarrow>
          (let src_intf = group_str m 1; dst_intf = group_str m 2;
               orig_src = group_str m 3; mapped_src = group_str m 4
           in (config \<lparr> nat_rules := nat_rules config @
                 [(default_nat_rule nat_seq_counter (''DynamicNAT_'' @ orig_src))
                    \<lparr> n_source_interface := [strip src_intf],
                      n_destination_interface := [strip dst_intf],
                      n_original_source := [get_new_name orig_src context_name duplicates],
                      n_translated_source := Some (get_new_name mapped_src context_name duplicates),
                      n_enabled := is_enabled, n_original_text := line \<rparr>] \<rparr>,
               nat_seq_counter + 1))
      | None \<Rightarrow> (config, nat_seq_counter)))))"

section \<open>The Fortinet generator (generators/fortinet\_generator.py)\<close>

text \<open>\<open>FORTINET_DEFAULTS\<close>, in the order of the dict literal: name, protocol, port.\<close>

definition FORTINET_DEFAULTS :: "(string \<times> string \<times> string option) list" where
  "FORTINET_DEFAULTS =
     [(''ALL'', ''ip'', None),
      (''ALL_TCP'', ''tcp'', Some ''1-65535''),
      (''ALL_UDP'', ''udp'', Some ''1-65535''),
      (''ALL_ICMP'', ''icmp'', None),
      (''PING'', ''icmp'', None),
      (''IKE'', ''udp'', Some ''500''),
      (''HTTP'', ''tcp'', Some ''80''),
      (''HTTPS'', ''tcp'', Some ''443''),
      (''SSH'', ''tcp'', Some ''22''),
      (''TELNET'', ''tcp'', Some ''23''),
      (''FTP'', ''tcp'', Some ''21''),
      (''SMTP'', ''tcp'', Some ''25''),
      (''DNS'', ''udp'', Some ''53''),
      (''NTP'', ''udp'', Some ''123''),
      (''SNMP'', ''udp'', Some ''161''),
      (''LDAP'', ''tcp'', Some ''389''),
      (''LDAPS'', ''tcp'', Some ''636''),
      (''BGP'', ''tcp'', Some ''179''),
      (''SYSLOG'', ''udp'', Some ''514''),
      (''NFS'', ''tcp'', Some ''2049''),
      (''GRE'', ''ip'', None),
      (''DHCP'', ''udp'', Some ''67''),
      (''PPTP'', ''tcp'', Some ''1723''),
      (''RDP'', ''tcp'', Some ''3389''),
      (''NETBIOS-SSN'', ''tcp'', Some ''139''),
      (''ONC-RPC'', ''tcp'', Some ''111'')]"

definition PORT_NAME_MAP :: "(string \<times> string) list" where
  "PORT_NAME_MAP =
     [(''isakmp'', ''500''), (''bootps'', ''67''), (''bootpc'', ''68''), (''domain'', ''53''),
      (''www'', ''80''), (''pop3'', ''110''), (''imap4'', ''143''), (''sunrpc'', ''111''),
      (''pptp'', ''1723''), (''ldaps'', ''636''), (''ms-wbt-server'', ''3389''), (''rdp'', ''3389''),
      (''netbios-ssn'', ''139'')]"

definition normalize_port :: "string \<Rightarrow> string option" where
  "normalize_port port_str =
     (if port_str = [] then None
      else
        (let clean = strip (replace ''range '' [] (replace ''eq '' [] (lower port_str))) in
         case map_of PORT_NAME_MAP clean of
           Some p \<Rightarrow> Some p
         | None \<Rightarrow> if CHR '' '' \<in> set clean then Some (replace '' '' ''-'' clean) else Some clean))"

text \<open>
  The inner loop over the defaults stops at the first default of the service's protocol that
  has no port or has the normalised port.
\<close>

definition match_default :: "Service \<Rightarrow> string option" where
  "match_default svc =
     (let proto = lower (s_protocol svc);
          port_norm = normalize_port (s_port svc)
      in map_option fst
           (find (\<lambda>(def_name, def_proto, def_port).
                     def_proto = proto \<and> (def_port = None \<or> port_norm = def_port))
                 FORTINET_DEFAULTS))"

definition build_replacement_map :: "Service pyset \<Rightarrow> (string \<times> string) list" where
  "build_replacement_map svcs =
     fold (\<lambda>svc m.
             if s_name svc \<in> set (map fst FORTINET_DEFAULTS) then m
             else (case match_default svc of None \<Rightarrow> m | Some def_name \<Rightarrow> dict_set (s_name svc) def_name m))
          svcs []"

definition replace_in_collection :: "(string \<times> string) list \<Rightarrow> string pyset \<Rightarrow> string pyset" where
  "replace_in_collection replacement_map collection =
     fold (\<lambda>item new_col. case map_of replacement_map item of
                              Some d \<Rightarrow> py_add d new_col
                            | None \<Rightarrow> py_add item new_col)
          collection []"

text \<open>
  \<open>_optimize_configuration\<close> works on the IR in place; the model returns the IR it leaves
  behind. \<open>services_to_remove\<close> is the key set of \<open>replacement_map\<close>.
\<close>

definition optimize_configuration :: "FirewallConfig \<Rightarrow> FirewallConfig" where
  "optimize_configuration config =
     (let replacement_map = build_replacement_map (services config) in
      if replacement_map = [] then config
      else config
        \<lparr> rules :=
            map (\<lambda>rule. rule \<lparr> r_service := replace_in_collection replacement_map (r_service rule) \<rparr>)
                (rules config),
          nat_rules :=
            map (\<lambda>nat. nat
                   \<lparr> n_original_service :=
                       replace_in_collection replacement_map (n_original_service nat),
                     n_translated_service :=
                       (case n_translated_service nat of
                          None \<Rightarrow> None
                        | Some ts \<Rightarrow> if ts \<noteq> [] \<and> map_of replacement_map ts \<noteq> None
                                    then map_of replacement_map ts else Some ts) \<rparr>)
                (nat_rules config),
          service_groups :=
            map (\<lambda>grp. grp \<lparr> sg_members := replace_in_collection replacement_map (sg_members grp) \<rparr>)
                (service_groups config),
          services :=
            filter (\<lambda>s. s_name s \<notin> set (map fst replacement_map)) (services config) \<rparr>)"

subsection \<open>Names and address objects\<close>

text \<open>The \<open>while '--' in s: s = s.replace('--', '-')\<close> loop of both generators.\<close>

function collapse_dashes :: "string \<Rightarrow> string" where
  "collapse_dashes s = (if contains ''--'' s then collapse_dashes (replace ''--'' ''-'' s) else s)"
  by pat_completeness auto
termination
proof (relation "measure length")
  show "wf (measure length)" by simp
next
  fix s :: string
  assume c: "contains ''--'' s"
  have both: "length (replace ''--'' ''-'' t) \<le> length t
              \<and> (contains ''--'' t \<longrightarrow> length (replace ''--'' ''-'' t) < length t)" for t
  proof (induction t rule: length_induct)
    case (1 t)
    show ?case
    proof (cases "prefix ''--'' t")
      case True
      then obtain rest where t: "t = ''--'' @ rest" by (auto simp: prefix_def)
      have "length rest < length t" using t by simp
      then have "length (replace ''--'' ''-'' rest) \<le> length rest" using 1 by blast
      moreover have "replace ''--'' ''-'' t = ''-'' @ replace ''--'' ''-'' rest"
        using t by (subst replace.simps) simp
      ultimately show ?thesis using t by simp
    next
      case False
      show ?thesis
      proof (cases t)
        case Nil
        then show ?thesis by (subst replace.simps, subst replace.simps) simp
      next
        case (Cons x xs)
        have r: "replace ''--'' ''-'' t = x # replace ''--'' ''-'' xs"
          using False Cons by (subst replace.simps) auto
        have ct: "contains ''--'' t = contains ''--'' xs" using False Cons by auto
        have "length xs < length t" using Cons by simp
        then have "length (replace ''--'' ''-'' xs) \<le> length xs
              \<and> (contains ''--'' xs \<longrightarrow> length (replace ''--'' ''-'' xs) < length xs)"
          using 1 by blast
        then show ?thesis using r ct Cons by simp
      qed
    qed
  qed
  then show "(replace ''--'' ''-'' s, s) \<in> measure length" using c by simp
qed

declare collapse_dashes.simps [simp del]

text \<open>\<open>re.sub(r'[^\w.\-]', '_', name)\<close> replaces each character outside the class.\<close>

definition fortinet_sanitize_name :: "string \<Rightarrow> string" where
  "fortinet_sanitize_name name =
     (if name = [] then []
      else
        (let safe1 = map (\<lambda>c. if in_class (CNot (COr CWord (CChars ''.-''))) c then CHR ''_'' else c) name;
             safe2 = replace ''UDP_eq-'' ''UDP-'' (replace ''TCP_eq-'' ''TCP-'' safe1);
             safe3 = replace ''udp_eq-'' ''UDP-'' (replace ''tcp_eq-'' ''TCP-'' safe2);
             safe4 = collapse_dashes safe3
         in take 79 (strip_chars ''_'' safe4)))"

text \<open>
  \<open>int(s)\<close> on a string: white space around, an optional sign, decimal digits, single
  underscores between digits. \<open>None\<close> stands for the \<open>ValueError\<close>.
\<close>

definition digits_value :: "string \<Rightarrow> int" where
  "digits_value ds = foldl (\<lambda>a c. 10 * a + (int (of_char c) - 48)) 0 ds"

definition valid_int_body :: "string \<Rightarrow> bool" where
  "valid_int_body b =
     (b \<noteq> [] \<and> is_digit (hd b) \<and> is_digit (last b)
      \<and> (\<forall>c \<in> set b. is_digit c \<or> c = CHR ''_'') \<and> \<not> contains ''__'' b)"

definition py_int :: "string \<Rightarrow> int option" where
  "py_int s =
     (let t = strip s;
          neg = (t \<noteq> [] \<and> hd t = CHR ''-'');
          body = (if t \<noteq> [] \<and> (hd t = CHR ''-'' \<or> hd t = CHR ''+'') then tl t else t)
      in if valid_int_body body
         then Some ((if neg then -1 else 1) * digits_value (filter is_digit body))
         else None)"

text \<open>
  \<open>_generate_addresses\<close>: the text written for one address object and for the whole section.
  The loop runs over the set \<open>self.config.addresses\<close> as it iterates. \<open>Address\<close> has no
  \<open>description\<close> attribute, so the \<open>set comment\<close> line is never written.
\<close>

definition fortinet_address_text :: "Address \<Rightarrow> string" where
  "fortinet_address_text addr =
     ''    edit '' @ dq @ fortinet_sanitize_name (a_name addr) @ dq @ nl
     @ (if a_type addr = ''host''
          then ''        set subnet '' @ a_value1 addr @ '' 255.255.255.255'' @ nl
        else if a_type addr = ''network''
          then (case (case a_value2 addr of None \<Rightarrow> None | Some v \<Rightarrow> py_int v) of
                  Some n \<Rightarrow>
                    if n \<le> 32
                    then ''        set subnet '' @ a_value1 addr @ ''/'' @ fmt_opt (a_value2 addr) @ nl
                    else ''        set subnet '' @ a_value1 addr @ '' '' @ fmt_opt (a_value2 addr) @ nl
                | None \<Rightarrow> ''        set subnet '' @ a_value1 addr @ '' '' @ fmt_opt (a_value2 addr) @ nl)
        else if a_type addr = ''range''
          then (if Some (a_value1 addr) = a_value2 addr
                then ''        set subnet '' @ a_value1 addr @ '' 255.255.255.255'' @ nl
                else ''        set type iprange'' @ nl
                     @ ''        set start-ip '' @ a_value1 addr @ nl
                     @ ''        set end-ip '' @ fmt_opt (a_value2 addr) @ nl)
        else if a_type addr = ''fqdn''
          then ''        set type fqdn'' @ nl
               @ ''        set fqdn '' @ dq @ a_value1 addr @ dq @ nl
        else [])
     @ ''    next'' @ nl"

definition fortinet_generate_addresses :: "FirewallConfig \<Rightarrow> string" where
  "fortinet_generate_addresses config =
     (if addresses config = [] then []
      else ''config firewall address'' @ nl
           @ concat (map fortinet_address_text (addresses config))
           @ ''end'' @ nl @ nl)"

section \<open>The Palo Alto generator (generators/palo\_alto\_generator.py)\<close>

text \<open>
  The options bound by \<open>__init__\<close>: \<open>device_group\<close> and \<open>template\<close> already hold their
  defaults, a profile name is \<open>None\<close> when the option is absent.
\<close>

record pa_options =
  output_mode :: string
  device_group :: string
  template :: string
  zone_map :: "(string \<times> string) list"
  av_profile :: "string option"
  as_profile :: "string option"
  vp_profile :: "string option"
  url_profile :: "string option"
  wf_profile :: "string option"
  fb_profile :: "string option"
  log_profile :: "string option"

definition default_pa_options :: pa_options where
  "default_pa_options = \<lparr> output_mode = ''firewall'', device_group = ''MyDeviceGroup'',
     template = ''MyTemplate'', zone_map = [], av_profile = None, as_profile = None,
     vp_profile = None, url_profile = None, wf_profile = None, fb_profile = None,
     log_profile = None \<rparr>"

definition get_cmd_prefix :: "pa_options \<Rightarrow> string \<Rightarrow> string" where
  "get_cmd_prefix opts ctx =
     (if output_mode opts = ''panorama'' \<and> ctx = ''network''
        then ''set template '' @ dq @ template opts @ dq
             @ '' config devices localhost.localdomain vsys vsys1''
      else if output_mode opts = ''panorama'' \<and> (ctx = ''object'' \<or> ctx = ''profile'')
        then ''set device-group '' @ dq @ device_group opts @ dq
      else if output_mode opts = ''panorama'' \<and> (ctx = ''rule'' \<or> ctx = ''nat'')
        then ''set device-group '' @ dq @ device_group opts @ dq @ '' pre-rulebase''
      else if ctx = ''rule'' \<or> ctx = ''nat'' then ''set rulebase''
      else ''set'')"

definition pa_sanitize_name :: "string \<Rightarrow> string" where
  "pa_sanitize_name name =
     (if name = [] then []
      else
        (let new1 = replace ''&'' ''n'' (replace ''/'' ''n'' name);
             new2 = replace ''-eq'' [] (replace ''_eq'' [] new1)
         in collapse_dashes new2))"

text \<open>\<open>BaseGenerator.get_target_zone\<close>\<close>

definition get_target_zone :: "pa_options \<Rightarrow> string \<Rightarrow> string" where
  "get_target_zone opts source_zone =
     (if source_zone = [] then ''any''
      else
        (let mapped = (case map_of (zone_map opts) source_zone of Some z \<Rightarrow> z | None \<Rightarrow> source_zone)
         in if strip mapped \<noteq> [] then strip mapped else source_zone))"

text \<open>The interface-to-zone table that \<open>generate\<close> builds before the sections.\<close>

definition build_intf_to_zone_map :: "Interface pyset \<Rightarrow> (string \<times> string) list" where
  "build_intf_to_zone_map ifaces =
     fold (\<lambda>iface m.
             if i_name iface \<noteq> [] \<and> truthy (i_zone iface)
             then (let clean_name = strip (i_name iface);
                       clean_zone = strip (the (i_zone iface))
                   in dict_set (lower clean_name) clean_zone (dict_set clean_name clean_zone m))
             else m)
          ifaces []"

definition resolve_zones ::
  "pa_options \<Rightarrow> (string \<times> string) list \<Rightarrow> string list \<Rightarrow> string list" where
  "resolve_zones opts intf_to_zone_map intfs =
     sort (fold (\<lambda>i zones.
                   let i_clean = strip i;
                       candidate = (case map_of intf_to_zone_map i_clean of
                                      Some z \<Rightarrow> z
                                    | None \<Rightarrow> (case map_of intf_to_zone_map (lower i_clean) of
                                                 Some z \<Rightarrow> z
                                               | None \<Rightarrow> i_clean))
                   in py_add (get_target_zone opts (strip candidate)) zones)
                intfs [])"

subsection \<open>What the generator writes\<close>

text \<open>
  Each element is one \<open>f.write\<close>. A command keeps its parts apart, so that a statement about
  "the address command of an object" or "the destination list of a rule" does not depend on
  how names with quotes or blanks read in the text; \<open>render\<close> gives the text that the write
  puts into the buffer.
\<close>

datatype pa_value =
    VAny                      \<comment> \<open>\<open>any\<close>\<close>
  | VBracketAny               \<comment> \<open>\<open>[ any ]\<close>\<close>
  | VList "string list"       \<comment> \<open>\<open>[ "m1" "m2" ]\<close>\<close>
  | VWord string              \<comment> \<open>a bare word\<close>
  | VQuoted string            \<comment> \<open>\<open>"text"\<close>\<close>

datatype pa_line =
    Text string
  | AddressCmd string string string string      \<comment> \<open>prefix, object name, kind, value\<close>
  | UrlCategoryCmd string string string         \<comment> \<open>prefix, category name, attribute and value\<close>
  | RuleCmd string string string pa_value       \<comment> \<open>prefix, rule name, key, value\<close>

definition quoted :: "string \<Rightarrow> string" where
  "quoted s = dq @ s @ dq"

fun render_value :: "pa_value \<Rightarrow> string" where
  "render_value VAny = ''any''"
| "render_value VBracketAny = ''[ any ]''"
| "render_value (VList ms) = ''[ '' @ join '' '' (map quoted ms) @ '' ]''"
| "render_value (VWord w) = w"
| "render_value (VQuoted q) = quoted q"

fun render :: "pa_line \<Rightarrow> string" where
  "render (Text t) = t"
| "render (AddressCmd pfx name kind v) =
     pfx @ '' address '' @ quoted name @ '' '' @ kind @ '' '' @ v @ nl"
| "render (UrlCategoryCmd pfx name rest) =
     pfx @ '' profiles custom-url-category '' @ quoted name @ '' '' @ rest @ nl"
| "render (RuleCmd pfx name key v) =
     pfx @ '' security rules '' @ quoted name @ '' '' @ key @ '' '' @ render_value v @ nl"

definition render_all :: "pa_line list \<Rightarrow> string" where
  "render_all ls = concat (map render ls)"

subsection \<open>\<open>_generate_addresses\<close>\<close>

text \<open>The generator's own state that the sections share.\<close>

record pa_state =
  wildcard_fqdns :: "(string \<times> string) list"
  existing_address_names :: "string pyset"

definition pa_init_state :: "FirewallConfig \<Rightarrow> pa_state" where
  "pa_init_state config =
     \<lparr> wildcard_fqdns = [],
       existing_address_names = py_update (map (\<lambda>a. pa_sanitize_name (a_name a)) (addresses config)) [] \<rparr>"

definition is_wildcard_fqdn :: "Address \<Rightarrow> bool" where
  "is_wildcard_fqdn addr = (a_type addr = ''fqdn'' \<and> startswith (a_value1 addr) ''*'')"

text \<open>The body of the loop over the sorted addresses.\<close>

definition pa_address_step :: "string \<Rightarrow> Address \<Rightarrow> pa_line list \<times> pa_state \<Rightarrow> pa_line list \<times> pa_state" where
  "pa_address_step pfx addr acc =
     (let (out, st) = acc;
          clean_name = pa_sanitize_name (a_name addr)
      in if is_wildcard_fqdn addr
         then (out, st \<lparr> wildcard_fqdns := dict_set clean_name (a_value1 addr) (wildcard_fqdns st) \<rparr>)
         else if a_type addr = ''host''
           then (out @ [AddressCmd pfx clean_name ''ip-netmask'' (a_value1 addr @ ''/32'')], st)
         else if a_type addr = ''network''
           then (out @ [AddressCmd pfx clean_name ''ip-netmask''
                          (a_value1 addr @ ''/'' @ fmt_opt (a_value2 addr))], st)
         else if a_type addr = ''range''
           then (out @ [AddressCmd pfx clean_name ''ip-range''
                          (a_value1 addr @ ''-'' @ fmt_opt (a_value2 addr))], st)
         else if a_type addr = ''fqdn''
           then (out @ [AddressCmd pfx clean_name ''fqdn'' (a_value1 addr)], st)
         else (out, st))"

definition url_category_lines :: "string \<Rightarrow> string \<times> string \<Rightarrow> pa_line list" where
  "url_category_lines pfx_prof entry =
     (let (name, url) = entry in
      [UrlCategoryCmd pfx_prof name (''list [ '' @ quoted url @ '' ]''),
       UrlCategoryCmd pfx_prof name (''type '' @ quoted ''URL List''),
       UrlCategoryCmd pfx_prof name (''description '' @ quoted ''Converted from Wildcard FQDN Address'')])"

text \<open>The patterns of the NAT pool section.\<close>

definition octet_rx :: rx where
  "octet_rx = Rep CDigit 1 (Some 3) True"

definition ip4_rx :: rx where
  "ip4_rx = seqs [octet_rx, Lit ''.'', octet_rx, Lit ''.'', octet_rx, Lit ''.'', octet_rx]"

definition ip_pattern :: rx where
  "ip_pattern = Seq ip4_rx Eol"

definition range_pattern :: rx where
  "range_pattern = seqs [Grp 1 ip4_rx, Lit ''-'', Grp 2 ip4_rx, Eol]"

definition extract_ip_rx :: rx where
  "extract_ip_rx = Grp 1 ip4_rx"

definition pa_pool_step :: "string \<Rightarrow> NatRule \<Rightarrow> pa_line list \<times> pa_state \<Rightarrow> pa_line list \<times> pa_state" where
  "pa_pool_step pfx nat_rule acc =
     (let (out0, st0) = acc;
          (out1, st1) =
            (case n_translated_source nat_rule of
               None \<Rightarrow> (out0, st0)
             | Some ts \<Rightarrow>
                 if ts \<noteq> [] \<and> lower ts \<notin> {''dynamic-ip-and-port'', ''original''}
                 then
                   (let clean_ts = pa_sanitize_name ts in
                    if clean_ts \<notin> set (existing_address_names st0)
                    then
                      (if rx_match ip_pattern ts \<noteq> None
                         then (out0 @ [AddressCmd pfx clean_ts ''ip-netmask'' (ts @ ''/32'')],
                               st0 \<lparr> existing_address_names := py_add clean_ts (existing_address_names st0) \<rparr>)
                       else if rx_match range_pattern ts \<noteq> None
                         then (out0 @ [AddressCmd pfx clean_ts ''ip-range'' ts],
                               st0 \<lparr> existing_address_names := py_add clean_ts (existing_address_names st0) \<rparr>)
                       else (case rx_search extract_ip_rx ts of
                               Some (_, caps) \<Rightarrow>
                                 (out0 @ [AddressCmd pfx clean_ts ''ip-netmask''
                                            (fmt_opt (group caps 1) @ ''/32'')],
                                  st0 \<lparr> existing_address_names := py_add clean_ts (existing_address_names st0) \<rparr>)
                             | None \<Rightarrow> (out0, st0)))
                    else (out0, st0))
                 else (out0, st0))
      in case n_translated_destination nat_rule of
           None \<Rightarrow> (out1, st1)
         | Some td \<Rightarrow>
             if td \<noteq> [] \<and> lower td \<noteq> ''original''
             then
               (let clean_td = pa_sanitize_name td in
                if clean_td \<notin> set (existing_address_names st1) \<and> rx_match ip_pattern td \<noteq> None
                then (out1 @ [AddressCmd pfx clean_td ''ip-netmask'' (td @ ''/32'')],
                      st1 \<lparr> existing_address_names := py_add clean_td (existing_address_names st1) \<rparr>)
                else (out1, st1))
             else (out1, st1))"

definition pa_generate_addresses ::
  "pa_options \<Rightarrow> FirewallConfig \<Rightarrow> pa_state \<Rightarrow> pa_line list \<times> pa_state" where
  "pa_generate_addresses opts config st =
     (if addresses config = [] then ([], st)
      else
        (let pfx = get_cmd_prefix opts ''object'';
             (out1, st1) = fold (pa_address_step pfx) (sort_key a_name (addresses config))
                             ([Text (''# --- Object Address ---'' @ nl)], st);
             out2 = (if wildcard_fqdns st1 \<noteq> []
                     then out1 @ [Text (nl @ ''# --- Custom URL Categories ---'' @ nl)]
                          @ concat (map (url_category_lines (get_cmd_prefix opts ''profile''))
                                        (wildcard_fqdns st1))
                     else out1);
             (out3, st3) = fold (pa_pool_step pfx) (nat_rules config)
                             (out2 @ [Text (nl @ ''# --- NAT Pool Objects ---'' @ nl)], st1)
         in (out3 @ [Text nl], st3)))"

subsection \<open>\<open>_generate_rules\<close>\<close>

definition build_dnat_reverse_map :: "NatRule list \<Rightarrow> (string \<times> string) list" where
  "build_dnat_reverse_map nats =
     fold (\<lambda>nat_rule m.
             case n_translated_destination nat_rule of
               None \<Rightarrow> m
             | Some td \<Rightarrow>
                 if td \<noteq> [] \<and> n_original_destination nat_rule \<noteq> []
                 then dict_set td (hd (n_original_destination nat_rule)) m
                 else m)
          nats []"

text \<open>The split of a rule's services into port services and ICMP-like applications.\<close>

definition is_icmp_svc :: "string \<Rightarrow> bool" where
  "is_icmp_svc svc =
     (contains ''ICMP'' (upper svc) \<or> contains ''PING'' (upper svc) \<or> contains ''TRACEROUTE'' (upper svc))"

definition split_step :: "string \<Rightarrow> string list \<times> string pyset \<Rightarrow> string list \<times> string pyset" where
  "split_step svc acc =
     (let (regular_svcs, icmp_apps) = acc in
      if is_icmp_svc svc
      then (if contains ''TRACEROUTE'' (upper svc) then (regular_svcs, py_add ''traceroute'' icmp_apps)
            else if contains ''PING'' (upper svc) then (regular_svcs, py_add ''ping'' icmp_apps)
            else (regular_svcs, py_add ''ping'' (py_add ''icmp'' icmp_apps)))
      else (regular_svcs @ [svc], icmp_apps))"

record r_conf =
  suffix :: string
  conf_services :: "string list"
  applications :: "string list"
  service_setting :: string

definition rules_to_generate :: "Rule \<Rightarrow> r_conf list" where
  "rules_to_generate rule =
     (let (regular_svcs, icmp_apps) =
            fold split_step (r_service rule) ([], py_update (r_application rule) [])
      in (if regular_svcs \<noteq> [] \<or> (icmp_apps = [] \<and> regular_svcs = [])
          then [\<lparr> suffix = (if icmp_apps \<noteq> [] \<and> regular_svcs \<noteq> [] then ''_svc'' else []),
                  conf_services = regular_svcs, applications = [''any''],
                  service_setting = ''explicit'' \<rparr>]
          else [])
         @ (if icmp_apps \<noteq> []
            then [\<lparr> suffix = (if regular_svcs \<noteq> [] then ''_app'' else []),
                    conf_services = [], applications = sort icmp_apps,
                    service_setting = ''app-default'' \<rparr>]
            else []))"

definition is_any_or_all :: "string \<Rightarrow> bool" where
  "is_any_or_all s = (lower s = ''any'' \<or> lower s = ''all'')"

text \<open>\<open>any\<close> for an empty list or one that holds \<open>any\<close>/\<open>all\<close>, else the sanitized members.\<close>

definition members_value :: "string list \<Rightarrow> pa_value" where
  "members_value ms =
     (if ms = [] \<or> (\<exists>m \<in> set ms. is_any_or_all m) then VAny else VList (map pa_sanitize_name ms))"

text \<open>The loop over \<open>rule.destination\<close>: the final destinations and the URL categories.\<close>

definition dest_step ::
  "pa_state \<Rightarrow> (string \<times> string) list \<Rightarrow> string \<Rightarrow> string pyset \<times> string pyset
     \<Rightarrow> string pyset \<times> string pyset" where
  "dest_step st dnat_reverse_map dest_object acc =
     (let (final_destinations, custom_url_categories) = acc;
          sanitized_dest = pa_sanitize_name dest_object
      in if map_of (wildcard_fqdns st) sanitized_dest \<noteq> None
           then (final_destinations, py_add sanitized_dest custom_url_categories)
         else (case map_of dnat_reverse_map dest_object of
                 Some ext \<Rightarrow> (py_add ext final_destinations, custom_url_categories)
               | None \<Rightarrow> (py_add dest_object final_destinations, custom_url_categories)))"

definition split_destinations ::
  "pa_state \<Rightarrow> (string \<times> string) list \<Rightarrow> Rule \<Rightarrow> string pyset \<times> string pyset" where
  "split_destinations st dnat_reverse_map rule =
     fold (dest_step st dnat_reverse_map) (r_destination rule) ([], [])"

definition zones_value :: "string list \<Rightarrow> pa_value" where
  "zones_value zones = (if zones = [] then VBracketAny else VList zones)"

definition opt_line :: "string \<Rightarrow> string \<Rightarrow> string \<Rightarrow> string option \<Rightarrow> pa_line list" where
  "opt_line pfx name key v = (if truthy v then [RuleCmd pfx name key (VQuoted (the v))] else [])"

definition service_value :: "r_conf \<Rightarrow> pa_value" where
  "service_value rc =
     (if service_setting rc = ''app-default'' then VWord ''application-default''
      else if conf_services rc = [] \<or> (\<exists>s \<in> set (conf_services rc). is_any_or_all s) then VAny
      else (let svc_list_filtered = filter (\<lambda>s. lower s \<noteq> ''application-default'') (conf_services rc)
            in if svc_list_filtered = [] then VWord ''application-default''
               else VList (map pa_sanitize_name svc_list_filtered)))"

text \<open>The commands of one emitted security rule.\<close>

definition pa_rule_lines ::
  "pa_options \<Rightarrow> (string \<times> string) list \<Rightarrow> pa_state \<Rightarrow> (string \<times> string) list \<Rightarrow> Rule \<Rightarrow> r_conf
     \<Rightarrow> pa_line list" where
  "pa_rule_lines opts intf_to_zone_map st dnat_reverse_map rule rc =
     (let pfx = get_cmd_prefix opts ''rule'';
          r_nm = take (63 - length (suffix rc)) (pa_sanitize_name (r_name rule)) @ suffix rc;
          is_allow = (r_action rule \<noteq> [] \<and> lower (r_action rule) \<in> set allow_words);
          cmd = RuleCmd pfx r_nm;
          (final_destinations, custom_url_categories) = split_destinations st dnat_reverse_map rule
      in (if is_allow
          then opt_line pfx r_nm ''profile-setting profiles virus'' (av_profile opts)
               @ opt_line pfx r_nm ''profile-setting profiles spyware'' (as_profile opts)
               @ opt_line pfx r_nm ''profile-setting profiles vulnerability'' (vp_profile opts)
               @ opt_line pfx r_nm ''profile-setting profiles url-filtering'' (url_profile opts)
               @ opt_line pfx r_nm ''profile-setting profiles wildfire-analysis'' (wf_profile opts)
               @ opt_line pfx r_nm ''profile-setting profiles file-blocking'' (fb_profile opts)
          else [])
         @ [cmd ''to'' (zones_value (resolve_zones opts intf_to_zone_map (r_destination_interface rule))),
            cmd ''from'' (zones_value (resolve_zones opts intf_to_zone_map (r_source_interface rule))),
            cmd ''source'' (members_value (sort (r_source rule))),
            cmd ''destination'' (members_value (sort final_destinations)),
            cmd ''source-user'' VAny,
            cmd ''category'' (if custom_url_categories \<noteq> [] then VList (sort custom_url_categories)
                             else VAny),
            cmd ''saas-user-list'' VAny,
            cmd ''saas-tenant-list'' VAny,
            cmd ''application'' (if ''any'' \<in> set (applications rc) then VAny
                                else VList (applications rc)),
            cmd ''service'' (service_value rc),
            cmd ''source-hip'' VAny,
            cmd ''destination-hip'' VAny,
            cmd ''action'' (VWord (if is_allow then ''allow'' else ''deny'')),
            cmd ''log-start'' (VWord ''no''),
            cmd ''log-end'' (VWord ''yes''),
            cmd ''target negate'' (VWord ''no''),
            cmd ''rule-type'' (VWord ''universal'')]
         @ opt_line pfx r_nm ''log-setting'' (log_profile opts)
         @ (if truthy (r_remark rule)
            then [cmd ''description'' (VQuoted (replace dq [CHR 0x27] (the (r_remark rule))))]
            else [])
         @ (if \<not> r_enabled rule then [cmd ''disabled'' (VWord ''yes'')] else [])
         @ opt_line pfx r_nm ''schedule'' (r_time_range rule))"

definition pa_generate_rules ::
  "pa_options \<Rightarrow> (string \<times> string) list \<Rightarrow> FirewallConfig \<Rightarrow> pa_state \<Rightarrow> pa_line list" where
  "pa_generate_rules opts intf_to_zone_map config st =
     (if rules config = [] then []
      else
        (let dnat_reverse_map = build_dnat_reverse_map (nat_rules config) in
         Text (''# --- Security Policy ---'' @ nl)
         # concat (map (\<lambda>rule.
                          concat (map (pa_rule_lines opts intf_to_zone_map st dnat_reverse_map rule)
                                      (rules_to_generate rule))
                          @ [Text nl])
                       (rules config))))"

text \<open>
  The two sections as \<open>generate\<close> runs them: the address section fills \<open>wildcard_fqdns\<close>, the
  sections between them leave it alone, and the rule section reads it.
\<close>

definition pa_addresses_then_rules ::
  "pa_options \<Rightarrow> FirewallConfig \<Rightarrow> pa_line list \<times> pa_line list" where
  "pa_addresses_then_rules opts config =
     (let (address_out, st) = pa_generate_addresses opts config (pa_init_state config)
      in (address_out,
          pa_generate_rules opts (build_intf_to_zone_map (interfaces config)) config st))"

section \<open>\<open>generate\<close> of the two generators\<close>

text \<open>
  The generator holds the IR in \<open>self.config\<close> and works on it in place. The body of
  \<open>generate\<close> is a sequence of statements of three kinds: the call of
  \<open>_optimize_configuration\<close>, which assigns to the IR; \<open>f.write\<close> of a literal; and the call
  of a section writer, which reads the IR and writes to the buffer (the section writers assign
  to the generator's own fields only: \<open>vip_map\<close>, \<open>dnat_map\<close>, \<open>ippool_map\<close>,
  \<open>intf_to_zone_map\<close>, \<open>wildcard_fqdns\<close>, \<open>existing_address_names\<close>). The state is the IR
  and the buffer; the buffer records, for each section, the IR that the section writer read.
\<close>

datatype statement =
    Optimize          \<comment> \<open>\<open>self._optimize_configuration()\<close>\<close>
  | Print string      \<comment> \<open>\<open>f.write\<close> of a literal\<close>
  | Section string    \<comment> \<open>a section writer, by the name of the method\<close>

datatype written =
    Printed string
  | Wrote string FirewallConfig

fun exec :: "statement \<Rightarrow> FirewallConfig \<times> written list \<Rightarrow> FirewallConfig \<times> written list" where
  "exec Optimize (config, buf) = (optimize_configuration config, buf)"
| "exec (Print t) (config, buf) = (config, buf @ [Printed t])"
| "exec (Section name) (config, buf) = (config, buf @ [Wrote name config])"

text \<open>\<open>FortinetGenerator.generate\<close>; \<open>source_vendor\<close> is \<open>generic\<close> when it was not given.\<close>

definition fortinet_statements :: "string \<Rightarrow> string \<Rightarrow> statement list" where
  "fortinet_statements nat_mode source_vendor =
     [Optimize,
      Print (''! Fortinet Configuration generated by Firewall Converter Pro'' @ nl),
      Print (''! Target: FortiGate (NAT Mode: '' @ upper nat_mode @ '')'' @ nl),
      Print (''! Source Vendor: '' @ upper source_vendor @ nl @ nl),
      Print (''config system global'' @ nl),
      Print (''    set hostname '' @ dq @ ''Firewall-Migrated'' @ dq @ nl),
      Print (''end'' @ nl @ nl),
      Print (''config system settings'' @ nl),
      Print (if nat_mode = ''central'' then ''    set central-nat enable'' @ nl
             else ''    set central-nat disable'' @ nl),
      Print (''end'' @ nl @ nl),
      Print (''! --- Interface ---'' @ nl), Section ''_generate_interfaces'',
      Print (''! --- Zone ---'' @ nl), Section ''_generate_zones'',
      Print (''! --- Object Address ---'' @ nl), Section ''_generate_addresses'',
      Print (''! --- Address Group ---'' @ nl), Section ''_generate_address_groups'',
      Print (''! --- Object Service ---'' @ nl), Section ''_generate_services'',
      Print (''! --- Security Profiles ---'' @ nl), Section ''_generate_security_profiles'',
      Print (''! --- NAT ---'' @ nl), Section ''_generate_ippools'', Section ''_generate_vip'']
     @ (if nat_mode = ''central'' then [Section ''_generate_central_snat''] else [])
     @ [Print (''! --- Security Policy ---'' @ nl), Section ''_generate_policies'',
        Section ''_generate_dynamic_routing'',
        Print (''! --- Routes ---'' @ nl), Section ''_generate_routes'']"

definition fortinet_generate :: "string \<Rightarrow> string \<Rightarrow> FirewallConfig \<Rightarrow> FirewallConfig \<times> written list" where
  "fortinet_generate nat_mode source_vendor config =
     fold exec (fortinet_statements nat_mode source_vendor) (config, [])"

text \<open>
  \<open>PaloAltoSetGenerator.generate\<close>. Between the header and the first section it fills the
  generator's own \<open>intf_to_zone_map\<close> from the interfaces of the IR.
\<close>

definition palo_alto_statements :: "statement list" where
  "palo_alto_statements =
     [Print (''# Palo Alto SET commands generated by Firewall Converter Pro'' @ nl),
      Print (''# Target Version: PAN-OS 11+'' @ nl @ nl),
      Print (''set cli config-output-format set'' @ nl),
      Print (''configure'' @ nl),
      Section ''_generate_interfaces_and_zones'',
      Section ''_generate_addresses'',
      Section ''_generate_services'',
      Section ''_generate_address_groups'',
      Section ''_generate_service_groups'',
      Section ''_generate_security_profiles'',
      Section ''_generate_static_routes'',
      Section ''_generate_dynamic_routing'',
      Section ''_generate_rules'',
      Section ''_generate_nat_rules'',
      Print (''exit'' @ nl)]"

definition palo_alto_generate :: "FirewallConfig \<Rightarrow> FirewallConfig \<times> written list" where
  "palo_alto_generate config = fold exec palo_alto_statements (config, [])"

section \<open>Statements of the specification about the analyzer, and sample configurations\<close>

text \<open>
  The overall score as the specification words it:
  \<open>round(0.25 * optimization + 0.50 * security + 0.25 * complexity)\<close>, rounding to nearest.
\<close>

definition spec_overall :: "int \<Rightarrow> int \<Rightarrow> int \<Rightarrow> int" where
  "spec_overall opt sec cmp =
     round ((25 / 100) * of_int opt + (50 / 100) * of_int sec + (25 / 100) * of_int cmp :: rat)"

text \<open>
  Shadowing as the specification words it: equal actions, and each set of the later rule a subset
  of the earlier rule's set, a set of the earlier rule that holds \<open>any\<close> or \<open>all\<close> being
  universal.
\<close>

definition spec_subset :: "string pyset \<Rightarrow> string pyset \<Rightarrow> bool" where
  "spec_subset specific broader =
     (''any'' \<in> set broader \<or> ''all'' \<in> set broader \<or> set specific \<subseteq> set broader)"

definition spec_shadows :: "Rule \<Rightarrow> Rule \<Rightarrow> bool" where
  "spec_shadows ri rj =
     (r_action ri = r_action rj \<and> spec_subset (r_source rj) (r_source ri)
      \<and> spec_subset (r_destination rj) (r_destination ri)
      \<and> spec_subset (r_service rj) (r_service ri))"

text \<open>
  The critical class as the specification words it: an allow rule whose source, destination and
  service sets are each empty or contained in \<open>{any, all}\<close>, names compared without case.
\<close>

definition spec_within_any_all :: "string pyset \<Rightarrow> bool" where
  "spec_within_any_all s = (set (map lower s) \<subseteq> {''any'', ''all''})"

definition spec_any_any_any :: "Rule \<Rightarrow> bool" where
  "spec_any_any_any r =
     (r_action r = ''allow'' \<and> spec_within_any_all (r_source r)
      \<and> spec_within_any_all (r_destination r) \<and> spec_within_any_all (r_service r))"

text \<open>
  What the analyzer compares: names without case; a set of the earlier rule that holds \<open>any\<close>
  or \<open>all\<close> covers everything, and otherwise the later rule's set has to be non-empty.
\<close>

definition covers :: "string pyset \<Rightarrow> string pyset \<Rightarrow> bool" where
  "covers specific broader =
     ((\<exists>b \<in> set broader. lower b = ''any'' \<or> lower b = ''all'')
      \<or> (specific \<noteq> [] \<and> (\<forall>s \<in> set specific. \<exists>b \<in> set broader. lower s = lower b)))"

definition unrestricted :: "string pyset \<Rightarrow> bool" where
  "unrestricted s = (s = [] \<or> (\<exists>x \<in> set s. lower x = ''any'' \<or> lower x = ''all''))"

definition is_critical :: "SecurityRisk \<Rightarrow> bool" where
  "is_critical k = (k_severity k = ''critical'')"

text \<open>Two host objects with the same IP address, and no rule.\<close>

definition dup_host :: "string \<Rightarrow> Address" where
  "dup_host nm = \<lparr> a_name = nm, a_type = ''host'', a_value1 = ''10.0.0.5'', a_value2 = None,
     a_original_text = [] \<rparr>"

definition cfg_dup :: FirewallConfig where
  "cfg_dup = empty_config \<lparr> addresses := [dup_host ''WebA'', dup_host ''WebB''] \<rparr>"

text \<open>Two allow rules; the second one has an empty source set.\<close>

definition rule_web :: Rule where
  "rule_web = (default_rule 1 ''web'' ''allow'')
     \<lparr> r_source := [''Clients''], r_destination := [''WebSrv''], r_service := [''HTTP''] \<rparr>"

definition rule_web_nosrc :: Rule where
  "rule_web_nosrc = (default_rule 2 ''web2'' ''allow'')
     \<lparr> r_source := [], r_destination := [''WebSrv''], r_service := [''HTTP''] \<rparr>"

definition cfg_empty_source :: FirewallConfig where
  "cfg_empty_source = empty_config \<lparr> rules := [rule_web, rule_web_nosrc] \<rparr>"

text \<open>A broad rule followed by a narrow one.\<close>

definition rule_broad :: Rule where
  "rule_broad = (default_rule 1 ''A'' ''allow'')
     \<lparr> r_source := [''any''], r_destination := [''ANY''], r_service := [''all''] \<rparr>"

definition rule_narrow :: Rule where
  "rule_narrow = (default_rule 2 ''B'' ''allow'')
     \<lparr> r_source := [''host_1.2.3.4''], r_destination := [''host_5.6.7.8''],
       r_service := [''TCP_eq-80''] \<rparr>"

definition cfg_shadow :: FirewallConfig where
  "cfg_shadow = empty_config \<lparr> rules := [rule_broad, rule_narrow] \<rparr>"

text \<open>An allow rule whose source set holds \<open>any\<close> next to a host object.\<close>

definition rule_any_plus_host :: Rule where
  "rule_any_plus_host = (default_rule 1 ''open'' ''allow'')
     \<lparr> r_source := [''any'', ''host_10.0.0.1''], r_destination := [''any''], r_service := [''any''] \<rparr>"

definition cfg_any_plus_host :: FirewallConfig where
  "cfg_any_plus_host = empty_config \<lparr> rules := [rule_any_plus_host] \<rparr>"

section \<open>Statements about the Fortinet parser, and sample entries\<close>


text \<open>The value of the last \<open>set poolname\<close> line of a policy entry, if there is one.\<close>

definition pool_of :: "string list \<Rightarrow> string option" where
  "pool_of ls = map_option get_set_value (find (\<lambda>l. startswith l ''set poolname'') (rev ls))"


text \<open>A policy with \<open>set nat enable\<close> and no pool, and the same policy with a pool.\<close>

definition policy_nat_no_pool :: "string list" where
  "policy_nat_no_pool = [''edit 7'', ''set srcintf '' @ dq @ ''port1'' @ dq,
     ''set dstintf '' @ dq @ ''port2'' @ dq, ''set srcaddr '' @ dq @ ''LAN'' @ dq,
     ''set dstaddr '' @ dq @ ''all'' @ dq, ''set action accept'',
     ''set service '' @ dq @ ''ALL'' @ dq, ''set nat enable'']"

definition policy_nat_pool :: "string list" where
  "policy_nat_pool = policy_nat_no_pool @ [''set ippool enable'', ''set poolname '' @ dq @ ''pool1'' @ dq]"

section \<open>Statements about the generators, and sample configurations\<close>

text \<open>The renaming that a replacement map applies to one service name.\<close>

definition rename :: "(string \<times> string) list \<Rightarrow> string \<Rightarrow> string" where
  "rename m x = (case map_of m x of Some d \<Rightarrow> d | None \<Rightarrow> x)"

text \<open>
  The service canonicalization of the Fortinet generator, stated on the services. A service
  is the same as a default of the table when the default has the service's protocol in lower
  case and either has no port or has the service's normalized port. A service whose name is
  not a name of the table is canonicalized to the first default, in the order of the table,
  that it is the same as. A name is canonicalized as the last service of that name that is
  canonicalized to some default.
\<close>

definition same_as_default :: "Service \<Rightarrow> string \<times> string \<times> string option \<Rightarrow> bool" where
  "same_as_default svc d =
     (fst (snd d) = lower (s_protocol svc)
      \<and> (snd (snd d) = None \<or> snd (snd d) = normalize_port (s_port svc)))"

definition canonical_default :: "Service \<Rightarrow> string option" where
  "canonical_default svc =
     (if s_name svc \<in> fst ` set FORTINET_DEFAULTS then None
      else map_option fst (find (same_as_default svc) FORTINET_DEFAULTS))"

definition canonical_name :: "Service list \<Rightarrow> string \<Rightarrow> string option" where
  "canonical_name svcs n =
     (case find (\<lambda>s. s_name s = n \<and> canonical_default s \<noteq> None) (rev svcs) of
        None \<Rightarrow> None
      | Some s \<Rightarrow> canonical_default s)"

definition canon :: "Service list \<Rightarrow> string \<Rightarrow> string" where
  "canon svcs n = (case canonical_name svcs n of None \<Rightarrow> n | Some d \<Rightarrow> d)"

text \<open>The translated service of a NAT rule: \<open>None\<close> and the empty string stay.\<close>

definition canon_opt :: "Service list \<Rightarrow> string option \<Rightarrow> string option" where
  "canon_opt svcs ts =
     (case ts of None \<Rightarrow> None | Some t \<Rightarrow> if t = [] then Some [] else Some (canon svcs t))"

text \<open>
  A custom service that equals the FortiOS default \<open>HTTP\<close>, an ICMP service with a port text,
  a rule and a NAT rule that use them.
\<close>

definition svc_my_http :: Service where
  "svc_my_http = \<lparr> s_name = ''my-http'', s_protocol = ''tcp'', s_port = ''eq 80'',
     s_original_text = [] \<rparr>"

definition svc_echo :: Service where
  "svc_echo = \<lparr> s_name = ''ICMP_echo'', s_protocol = ''icmp'', s_port = ''echo'',
     s_original_text = [] \<rparr>"

definition rule_my_http :: Rule where
  "rule_my_http = (default_rule 1 ''web'' ''allow'')
     \<lparr> r_source := [''LAN''], r_destination := [''WebSrv''], r_service := [''my-http'', ''TCP-8443''] \<rparr>"

definition nat_my_http :: NatRule where
  "nat_my_http = (default_nat_rule 1 ''dnat-web'')
     \<lparr> n_original_destination := [''Ext''], n_translated_destination := Some ''WebSrv'',
       n_original_service := [''ICMP_echo'', ''TCP-8443''], n_translated_service := Some ''my-http'' \<rparr>"

definition grp_web :: ServiceGroup where
  "grp_web = \<lparr> sg_name = ''web-svcs'', sg_members = [''my-http'', ''TCP-8443''],
     sg_original_text = [] \<rparr>"

definition cfg_my_http :: FirewallConfig where
  "cfg_my_http = empty_config
     \<lparr> services := [svc_my_http, svc_echo], service_groups := [grp_web],
       rules := [rule_my_http], nat_rules := [nat_my_http] \<rparr>"

text \<open>A configuration whose only service is the same as no default.\<close>

definition svc_8443 :: Service where
  "svc_8443 = \<lparr> s_name = ''TCP-8443'', s_protocol = ''tcp'', s_port = ''eq 8443'',
     s_original_text = [] \<rparr>"

definition cfg_plain :: FirewallConfig where
  "cfg_plain = empty_config \<lparr> services := [svc_8443], rules := [rule_my_http] \<rparr>"

text \<open>
  One set of two host objects, once iterating as \<open>alpha, beta\<close> and once as \<open>beta, alpha\<close>.
\<close>

definition host_alpha :: Address where
  "host_alpha = \<lparr> a_name = ''alpha'', a_type = ''host'', a_value1 = ''10.0.0.1'', a_value2 = None,
     a_original_text = [] \<rparr>"

definition host_beta :: Address where
  "host_beta = \<lparr> a_name = ''beta'', a_type = ''host'', a_value1 = ''10.0.0.2'', a_value2 = None,
     a_original_text = [] \<rparr>"

definition cfg_alpha_beta :: FirewallConfig where
  "cfg_alpha_beta = empty_config \<lparr> addresses := [host_alpha, host_beta] \<rparr>"

definition cfg_beta_alpha :: FirewallConfig where
  "cfg_beta_alpha = empty_config \<lparr> addresses := [host_beta, host_alpha] \<rparr>"

text \<open>The values that the commands of a rule section give for one key, in order.\<close>

fun line_value :: "string \<Rightarrow> pa_line \<Rightarrow> pa_value list" where
  "line_value key (RuleCmd p n k v) = (if k = key then [v] else [])"
| "line_value key (Text t) = []"
| "line_value key (AddressCmd p n k v) = []"
| "line_value key (UrlCategoryCmd p n r) = []"

definition rule_values :: "string \<Rightarrow> pa_line list \<Rightarrow> pa_value list" where
  "rule_values key ls = concat (map (line_value key) ls)"

text \<open>The name under which a rule is emitted for one of its (at most two) variants.\<close>

definition emitted_name :: "Rule \<Rightarrow> r_conf \<Rightarrow> string" where
  "emitted_name rule rc = take (63 - length (suffix rc)) (pa_sanitize_name (r_name rule)) @ suffix rc"




text \<open>
  Two external addresses forwarded to one server, a rule towards the server, and a rule towards
  the server and \<open>all\<close>.
\<close>

definition nat_ext1 :: NatRule where
  "nat_ext1 = (default_nat_rule 1 ''NAT_Ext1'')
     \<lparr> n_original_destination := [''Ext1''], n_translated_destination := Some ''WebSrv'' \<rparr>"


definition rule_to_websrv :: Rule where
  "rule_to_websrv = (default_rule 1 ''inbound-web'' ''allow'')
     \<lparr> r_source := [''any''], r_destination := [''WebSrv''], r_service := [''HTTPS''] \<rparr>"



text \<open>Scenario 6 of the specification: one NAT rule and the rule towards the server.\<close>

definition cfg_one_dnat :: FirewallConfig where
  "cfg_one_dnat = empty_config \<lparr> rules := [rule_to_websrv], nat_rules := [nat_ext1] \<rparr>"


text \<open>
  A wildcard FQDN object that is also the original-destination of a NAT rule, and a rule whose
  destinations are the object and the NAT rule's translated-destination.
\<close>

definition wild_site :: Address where
  "wild_site = \<lparr> a_name = ''WildSite'', a_type = ''fqdn'', a_value1 = ''*.example.com'',
     a_value2 = None, a_original_text = [] \<rparr>"

definition web_srv :: Address where
  "web_srv = \<lparr> a_name = ''WebSrv'', a_type = ''host'', a_value1 = ''10.0.0.5'', a_value2 = None,
     a_original_text = [] \<rparr>"

definition nat_wild :: NatRule where
  "nat_wild = (default_nat_rule 1 ''NAT_Wild'')
     \<lparr> n_original_destination := [''WildSite''], n_translated_destination := Some ''WebSrv'' \<rparr>"

definition rule_wild :: Rule where
  "rule_wild = (default_rule 1 ''to-site'' ''allow'')
     \<lparr> r_source := [''LAN''], r_destination := [''WebSrv'', ''WildSite''], r_service := [''HTTPS''] \<rparr>"

definition cfg_wild_dnat :: FirewallConfig where
  "cfg_wild_dnat = empty_config
     \<lparr> addresses := [wild_site, web_srv], rules := [rule_wild], nat_rules := [nat_wild] \<rparr>"

text \<open>Scenario 5 of the specification: the wildcard object and a rule towards it.\<close>

definition rule_wild_only :: Rule where
  "rule_wild_only = (default_rule 1 ''to-site'' ''allow'')
     \<lparr> r_source := [''LAN''], r_destination := [''WildSite''], r_service := [''HTTPS''] \<rparr>"

definition cfg_wild :: FirewallConfig where
  "cfg_wild = empty_config \<lparr> addresses := [wild_site], rules := [rule_wild_only] \<rparr>"

text \<open>One rule whose service set iterates as \<open>svc-b, svc-a\<close>, and the same rule with \<open>svc-a, svc-b\<close>.\<close>

definition rule_svc_ba :: Rule where
  "rule_svc_ba = (default_rule 1 ''r'' ''allow'')
     \<lparr> r_source := [''LAN''], r_destination := [''WebSrv''], r_service := [''svc-b'', ''svc-a''] \<rparr>"

definition rule_svc_ab :: Rule where
  "rule_svc_ab = rule_svc_ba \<lparr> r_service := [''svc-a'', ''svc-b''] \<rparr>"

subsection \<open>Manual static NAT lines\<close>

text \<open>
  The two NatRules that the specification names for \<open>nat (src,dst) source static A B\<close>:
  the forward rule and the reverse rule with the interfaces swapped.
\<close>

definition spec_forward :: "int \<Rightarrow> string \<Rightarrow> string \<Rightarrow> string \<Rightarrow> string \<Rightarrow> bool \<Rightarrow> string \<Rightarrow> NatRule" where
  "spec_forward sid src dst a b en line =
     (default_nat_rule sid (''StaticNAT_'' @ a))
       \<lparr> n_original_source := [a], n_translated_source := Some b,
         n_source_interface := [src], n_destination_interface := [dst],
         n_enabled := en, n_original_text := line \<rparr>"

definition spec_reverse :: "int \<Rightarrow> string \<Rightarrow> string \<Rightarrow> string \<Rightarrow> string \<Rightarrow> bool \<Rightarrow> NatRule" where
  "spec_reverse sid src dst a b en =
     (default_nat_rule sid (''StaticNAT_Reverse_'' @ a))
       \<lparr> n_original_destination := [b], n_translated_destination := Some a,
         n_source_interface := [dst], n_destination_interface := [src],
         n_enabled := en, n_original_text := ''! Auto-generated reverse NAT for '' @ a \<rparr>"

definition line_static :: string where
  "line_static = ''nat (inside,outside) source static SRV-REAL SRV-MAPPED''"

definition line_static_unidirectional :: string where
  "line_static_unidirectional = ''nat (inside,outside) source static SRV-REAL SRV-MAPPED unidirectional''"

definition line_static_inactive :: string where
  "line_static_inactive = ''nat (inside,outside) source static SRV-REAL SRV-MAPPED inactive''"

definition line_static_service :: string where
  "line_static_service =
     ''nat (inside,outside) source static SRV-REAL SRV-MAPPED service SVC-REAL SVC-MAPPED''"

definition line_static_no_proxy_arp :: string where
  "line_static_no_proxy_arp = ''nat (inside,outside) source static SRV-REAL SRV-MAPPED no-proxy-arp''"

section \<open>Properties of the analyzer\<close>

subsection \<open>Scores\<close>

lemma weighted_floor:
  "\<lfloor>(of_int a / 4 + of_int b / 2 + of_int c / 4 :: rat)\<rfloor> = (a + 2 * b + c) div 4"
proof -
  have "(of_int a / 4 + of_int b / 2 + of_int c / 4 :: rat) = of_int (a + 2 * b + c) / of_int 4"
    by (simp add: field_simps)
  then show ?thesis by (simp only: floor_divide_of_int_eq)
qed

lemma weighted_nonneg:
  "0 \<le> a \<Longrightarrow> 0 \<le> b \<Longrightarrow> 0 \<le> c \<Longrightarrow> (0::rat) \<le> of_int a / 4 + of_int b / 2 + of_int c / 4"
  by simp

lemma calculate_scores_overall:
  assumes "s = calculate_scores config duplicates overlaps risks unused"
  shows "overall_score s = (optimization_score s + 2 * security_score s + complexity_score s) div 4"
    and "0 \<le> optimization_score s" "optimization_score s \<le> 100"
    and "0 \<le> security_score s" "security_score s \<le> 100"
    and "0 \<le> complexity_score s" "complexity_score s \<le> 100"
  using assms
  by (simp_all add: calculate_scores_def Let_def py_int_of_float_def weighted_floor weighted_nonneg)

text \<open>
  C4, as stated, fails. With two host objects of one IP address and no rule the sub-scores are
  95, 100 and 100; the weighted sum is 98.75; the analyzer reports 98 and rounding gives 99.
\<close>

theorem overall_score_not_rounded:
  "overall_score (scores (analyze cfg_dup))
     \<noteq> spec_overall (optimization_score (scores (analyze cfg_dup)))
          (security_score (scores (analyze cfg_dup)))
          (complexity_score (scores (analyze cfg_dup)))"
  by code_simp

text \<open>
  C4, amended: for every configuration the three sub-scores lie in \<open>[0, 100]\<close> and the overall
  score is the weighted sum \<open>0.25 * optimization + 0.50 * security + 0.25 * complexity\<close>
  truncated to an integer, that is \<open>(optimization + 2 * security + complexity) div 4\<close>.
\<close>

theorem overall_score_truncated:
  "overall_score (scores (analyze config))
     = (optimization_score (scores (analyze config)) + 2 * security_score (scores (analyze config))
          + complexity_score (scores (analyze config))) div 4
   \<and> 0 \<le> optimization_score (scores (analyze config))
   \<and> optimization_score (scores (analyze config)) \<le> 100
   \<and> 0 \<le> security_score (scores (analyze config))
   \<and> security_score (scores (analyze config)) \<le> 100
   \<and> 0 \<le> complexity_score (scores (analyze config))
   \<and> complexity_score (scores (analyze config)) \<le> 100"
proof -
  have s: "scores (analyze config)
       = calculate_scores config (find_duplicate_objects config) (find_overlapping_rules config)
           (find_security_risks config) (find_unused_objects config)"
    by (simp add: analyze_def Let_def)
  show ?thesis
    using calculate_scores_overall[OF s] by blast
qed

theorem overall_score_truncated_witness:
  "overall_score (scores (analyze cfg_dup)) = 98
   \<and> optimization_score (scores (analyze cfg_dup)) = 95
   \<and> security_score (scores (analyze cfg_dup)) = 100
   \<and> complexity_score (scores (analyze cfg_dup)) = 100"
proof -
  have o: "optimization_score (scores (analyze cfg_dup)) = 95" by code_simp
  have s: "security_score (scores (analyze cfg_dup)) = 100" by code_simp
  have c: "complexity_score (scores (analyze cfg_dup)) = 100" by code_simp
  show ?thesis
    using overall_score_truncated[of cfg_dup] o s c by simp
qed

subsection \<open>Shadowed rules\<close>

lemma is_subset_or_any_covers: "is_subset_or_any specific broader = covers specific broader"
  unfolding is_subset_or_any_def covers_def Let_def
  by (cases specific) (auto simp: image_iff)

lemma is_shadowing_iff:
  "is_shadowing b s \<longleftrightarrow> r_action b = r_action s \<and> covers (r_source s) (r_source b)
      \<and> covers (r_destination s) (r_destination b) \<and> covers (r_service s) (r_service b)"
  by (auto simp: is_shadowing_def is_subset_or_any_covers)

lemma concat_map_single:
  "k0 < n \<Longrightarrow> (\<And>k. k < n \<Longrightarrow> k \<noteq> k0 \<Longrightarrow> f k = []) \<Longrightarrow> concat (map f [0..<n]) = f k0"
proof (induction n)
  case 0
  then show ?case by simp
next
  case (Suc n)
  show ?case
  proof (cases "k0 = n")
    case True
    have "concat (map f [0..<n]) = []" using Suc.prems(2) True by auto
    then show ?thesis using True by simp
  next
    case False
    then have "k0 < n" using Suc.prems(1) by simp
    moreover have "f n = []" using Suc.prems(2)[of n] False by simp
    ultimately show ?thesis using Suc.IH Suc.prems(2) by simp
  qed
qed

lemma filter_concat_map: "filter P (concat (map f xs)) = concat (map (\<lambda>x. filter P (f x)) xs)"
  by (induction xs) auto

lemma filter_overlaps_pair:
  assumes "i < j" "j < length (rules config)"
  shows "filter (\<lambda>e. o_rule_id e = int j + 1 \<and> o_shadowed_by_id e = int i + 1)
            (find_overlapping_rules config)
     = (if is_shadowing (rules config ! i) (rules config ! j)
        then [mk_overlap i (rules config ! i) j (rules config ! j)] else [])"
proof -
  let ?rs = "rules config"
  let ?P = "\<lambda>e. o_rule_id e = int j + 1 \<and> o_shadowed_by_id e = int i + 1"
  let ?g = "\<lambda>i' j'. filter ?P (if i' \<ge> j' then []
                       else if is_shadowing (?rs ! i') (?rs ! j')
                            then [mk_overlap i' (?rs ! i') j' (?rs ! j')]
                            else [])"
  have inner: "filter ?P (overlaps_inner ?rs i') = concat (map (?g i') [0..<length ?rs])" for i'
    unfolding overlaps_inner_def filter_concat_map ..
  have inner_other: "filter ?P (overlaps_inner ?rs i') = []" if "i' \<noteq> i" for i'
    unfolding inner using that by (auto simp: mk_overlap_def)
  have inner_i: "filter ?P (overlaps_inner ?rs i) = ?g i j"
    unfolding inner
    by (rule concat_map_single[OF assms(2)]) (auto simp: mk_overlap_def)
  have "filter ?P (find_overlapping_rules config)
          = concat (map (\<lambda>i'. filter ?P (overlaps_inner ?rs i')) [0..<length ?rs])"
    unfolding find_overlapping_rules_def filter_concat_map ..
  also have "\<dots> = filter ?P (overlaps_inner ?rs i)"
    by (rule concat_map_single) (use assms inner_other in auto)
  also have "\<dots> = ?g i j" by (rule inner_i)
  finally show ?thesis using assms by (simp add: mk_overlap_def)
qed

text \<open>
  C3, as stated, fails. Rule 2 differs from rule 1 only in its source set, which is empty. The
  empty set is a subset of every set, so the specification calls rule 2 shadowed by rule 1; the
  analyzer reports no entry for the pair.
\<close>

theorem shadow_empty_set_not_reported:
  "spec_shadows (rules cfg_empty_source ! 0) (rules cfg_empty_source ! 1)
   \<and> \<not> (\<exists>e \<in> set (find_overlapping_rules cfg_empty_source).
           o_rule_id e = 2 \<and> o_shadowed_by_id e = 1)"
  by code_simp

text \<open>
  C3, amended: for every pair of positions \<open>i < j\<close> of the rule list, the report holds exactly
  one entry that names rule \<open>j + 1\<close> as shadowed by rule \<open>i + 1\<close> (1-indexed) when the two rules
  have the same action string and rule \<open>i\<close> covers rule \<open>j\<close> in source, destination and
  service; otherwise it holds no such entry. A set covers another one when, comparing names
  without case, it holds \<open>any\<close> or \<open>all\<close>, or the other set is non-empty and each of its
  members is in it.
\<close>

theorem shadow_reported_iff:
  assumes "i < j" and "j < length (rules config)"
  shows "filter (\<lambda>e. o_rule_id e = int j + 1 \<and> o_shadowed_by_id e = int i + 1)
            (find_overlapping_rules config)
     = (if r_action (rules config ! i) = r_action (rules config ! j)
           \<and> covers (r_source (rules config ! j)) (r_source (rules config ! i))
           \<and> covers (r_destination (rules config ! j)) (r_destination (rules config ! i))
           \<and> covers (r_service (rules config ! j)) (r_service (rules config ! i))
        then [mk_overlap i (rules config ! i) j (rules config ! j)] else [])"
  using filter_overlaps_pair[OF assms] by (simp add: is_shadowing_iff)

theorem shadow_reported_iff_witness:
  "(0::nat) < 1 \<and> 1 < length (rules cfg_shadow)
   \<and> filter (\<lambda>e. o_rule_id e = int 1 + 1 \<and> o_shadowed_by_id e = int 0 + 1)
        (find_overlapping_rules cfg_shadow)
     = [mk_overlap 0 (rules cfg_shadow ! 0) 1 (rules cfg_shadow ! 1)]"
proof -
  have h1: "(0::nat) < 1" by simp
  have h2: "1 < length (rules cfg_shadow)" by code_simp
  have c: "r_action (rules cfg_shadow ! 0) = r_action (rules cfg_shadow ! 1)
           \<and> covers (r_source (rules cfg_shadow ! 1)) (r_source (rules cfg_shadow ! 0))
           \<and> covers (r_destination (rules cfg_shadow ! 1)) (r_destination (rules cfg_shadow ! 0))
           \<and> covers (r_service (rules cfg_shadow ! 1)) (r_service (rules cfg_shadow ! 0))"
    by code_simp
  have "filter (\<lambda>e. o_rule_id e = int 1 + 1 \<and> o_shadowed_by_id e = int 0 + 1)
            (find_overlapping_rules cfg_shadow)
     = [mk_overlap 0 (rules cfg_shadow ! 0) 1 (rules cfg_shadow ! 1)]"
    unfolding shadow_reported_iff[OF h1 h2] by (rule if_P[OF c])
  then show ?thesis using h1 h2 by blast
qed

subsection \<open>Critical risks\<close>

lemma has_any_or_all_iff:
  "has_any_or_all s \<longleftrightarrow> (\<exists>x \<in> set s. lower x = ''any'' \<or> lower x = ''all'')"
  unfolding has_any_or_all_def set_map image_iff by metis

lemma is_any_any_any_iff:
  "is_any_any_any r \<longleftrightarrow> lower (r_action r) \<in> {''allow'', ''permit'', ''accept''}
      \<and> unrestricted (r_source r) \<and> unrestricted (r_destination r) \<and> unrestricted (r_service r)"
  unfolding is_any_any_any_def allow_words_def unrestricted_def Let_def has_any_or_all_iff
  by (simp only: list.set if_not_P if_P split: if_split) blast

lemma critical_filter:
  "filter is_critical (find_security_risks config)
     = map risk_any_any_any (filter is_any_any_any (rules config))"
  unfolding find_security_risks_def is_critical_def
  by (simp add: filter_map o_def risk_any_any_any_def risk_disabled_def risk_no_logging_def
        risk_any_service_def risk_no_description_def)

text \<open>
  C9, as stated, fails. The rule below allows \<open>any\<close> service to \<open>any\<close> destination and its
  source set holds \<open>any\<close> next to a host object, so the source set is neither empty nor
  contained in \<open>{any, all}\<close>; the claim promises no critical risk for it, and the analyzer
  reports one.
\<close>

theorem critical_for_rule_outside_spec_class:
  "\<not> spec_any_any_any rule_any_plus_host
   \<and> length (filter (\<lambda>k. is_critical k \<and> k_item_name k = r_name rule_any_plus_host)
               (find_security_risks cfg_any_plus_host)) = 1"
  by code_simp

text \<open>
  C9, amended: the critical risks of the report are, in rule order, exactly one per rule whose
  action is \<open>allow\<close>, \<open>permit\<close> or \<open>accept\<close> (compared without case) and whose source,
  destination and service sets are each empty or hold \<open>any\<close> or \<open>all\<close> (compared without
  case, other members allowed); no other rule gets a critical risk.
\<close>

theorem critical_risks_exactly:
  "filter is_critical (find_security_risks config)
     = map risk_any_any_any
         (filter (\<lambda>r. lower (r_action r) \<in> {''allow'', ''permit'', ''accept''}
                      \<and> unrestricted (r_source r) \<and> unrestricted (r_destination r)
                      \<and> unrestricted (r_service r))
            (rules config))"
proof -
  have "is_any_any_any
          = (\<lambda>r. lower (r_action r) \<in> {''allow'', ''permit'', ''accept''}
                      \<and> unrestricted (r_source r) \<and> unrestricted (r_destination r)
                      \<and> unrestricted (r_service r))"
    by (rule ext) (rule is_any_any_any_iff)
  then show ?thesis using critical_filter[of config] by (simp only:)
qed

theorem critical_risks_exactly_witness:
  "filter is_critical (find_security_risks cfg_any_plus_host) = [risk_any_any_any rule_any_plus_host]"
proof -
  have f: "filter (\<lambda>r. lower (r_action r) \<in> {''allow'', ''permit'', ''accept''}
                      \<and> unrestricted (r_source r) \<and> unrestricted (r_destination r)
                      \<and> unrestricted (r_service r))
            (rules cfg_any_plus_host) = [rule_any_plus_host]"
    by code_simp
  show ?thesis
    unfolding critical_risks_exactly[of cfg_any_plus_host] f by (simp only: list.map)
qed

section \<open>Properties of the Fortinet parser\<close>

lemma set_py_add: "set (py_add x s) = insert x (set s)"
  by (auto simp: py_add_def)



lemma map_of_dict_set_iff: "map_of (dict_set k v d) k' = (if k' = k then Some v else map_of d k')"
  by (induction d) auto

lemma prefix_clash: "prefix a l \<Longrightarrow> \<not> prefix a b \<Longrightarrow> \<not> prefix b a \<Longrightarrow> \<not> prefix b l"
  using prefix_same_cases by blast

lemma find_snoc:
  "find P (xs @ [x]) = (case find P xs of Some y \<Rightarrow> Some y | None \<Rightarrow> if P x then Some x else None)"
  by (induction xs) auto

subsection \<open>Services with a TCP and a UDP port range\<close>











subsection \<open>Policies with NAT enabled\<close>

lemma nat_enable_line:
  assumes "startswith l ''set nat enable''"
  shows "policy_scan_line l sc = sc \<lparr> is_nat_enabled := True \<rparr>"
proof -
  have p: "prefix ''set nat enable'' l" using assms by (simp add: startswith_def)
  have "\<not> prefix ''set name'' l" by (rule prefix_clash[OF p]) simp_all
  moreover have "\<not> prefix ''set srcintf'' l" by (rule prefix_clash[OF p]) simp_all
  moreover have "\<not> prefix ''set dstintf'' l" by (rule prefix_clash[OF p]) simp_all
  moreover have "\<not> prefix ''set srcaddr'' l" by (rule prefix_clash[OF p]) simp_all
  moreover have "\<not> prefix ''set dstaddr'' l" by (rule prefix_clash[OF p]) simp_all
  moreover have "\<not> prefix ''set service'' l" by (rule prefix_clash[OF p]) simp_all
  moreover have "\<not> prefix ''set action'' l" by (rule prefix_clash[OF p]) simp_all
  moreover have "\<not> prefix ''set status'' l" by (rule prefix_clash[OF p]) simp_all
  moreover have "\<not> prefix ''set comments'' l" by (rule prefix_clash[OF p]) simp_all
  ultimately show ?thesis
    using p by (simp add: policy_scan_line_def startswith_def)
qed

lemma poolname_line:
  assumes "startswith l ''set poolname''"
  shows "policy_scan_line l sc = sc \<lparr> nat_pool_name := Some (get_set_value l) \<rparr>"
proof -
  have p: "prefix ''set poolname'' l" using assms by (simp add: startswith_def)
  have "\<not> prefix ''set name'' l" by (rule prefix_clash[OF p]) simp_all
  moreover have "\<not> prefix ''set srcintf'' l" by (rule prefix_clash[OF p]) simp_all
  moreover have "\<not> prefix ''set dstintf'' l" by (rule prefix_clash[OF p]) simp_all
  moreover have "\<not> prefix ''set srcaddr'' l" by (rule prefix_clash[OF p]) simp_all
  moreover have "\<not> prefix ''set dstaddr'' l" by (rule prefix_clash[OF p]) simp_all
  moreover have "\<not> prefix ''set service'' l" by (rule prefix_clash[OF p]) simp_all
  moreover have "\<not> prefix ''set action'' l" by (rule prefix_clash[OF p]) simp_all
  moreover have "\<not> prefix ''set status'' l" by (rule prefix_clash[OF p]) simp_all
  moreover have "\<not> prefix ''set comments'' l" by (rule prefix_clash[OF p]) simp_all
  moreover have "\<not> prefix ''set nat enable'' l" by (rule prefix_clash[OF p]) simp_all
  ultimately show ?thesis
    using p by (simp add: policy_scan_line_def startswith_def)
qed

lemma other_line_nat:
  "\<not> startswith l ''set nat enable'' \<Longrightarrow> is_nat_enabled (policy_scan_line l sc) = is_nat_enabled sc"
  by (simp add: policy_scan_line_def upd_rule_def)

lemma other_line_pool:
  "\<not> startswith l ''set poolname'' \<Longrightarrow> nat_pool_name (policy_scan_line l sc) = nat_pool_name sc"
  by (simp add: policy_scan_line_def upd_rule_def)

lemma scan_nat_enabled:
  "is_nat_enabled (fold policy_scan_line ls sc)
     = (is_nat_enabled sc \<or> (\<exists>l \<in> set ls. startswith l ''set nat enable''))"
proof (induction ls arbitrary: sc)
  case Nil
  then show ?case by simp
next
  case (Cons l ls)
  show ?case
  proof (cases "startswith l ''set nat enable''")
    case True
    then show ?thesis by (simp add: Cons.IH nat_enable_line)
  next
    case False
    then show ?thesis by (simp add: Cons.IH other_line_nat)
  qed
qed

lemma scan_pool_name:
  "nat_pool_name (fold policy_scan_line ls sc)
     = (case find (\<lambda>l. startswith l ''set poolname'') (rev ls) of
          None \<Rightarrow> nat_pool_name sc | Some lp \<Rightarrow> Some (get_set_value lp))"
proof (induction ls arbitrary: sc)
  case Nil
  then show ?case by simp
next
  case (Cons l ls)
  show ?case
  proof (cases "startswith l ''set poolname''")
    case True
    then show ?thesis by (simp add: Cons.IH poolname_line find_snoc split: option.splits)
  next
    case False
    then show ?thesis by (simp add: Cons.IH other_line_pool find_snoc split: option.splits)
  qed
qed

text \<open>
  C10, as stated, fails. The policy below sets \<open>nat enable\<close> and no \<open>poolname\<close>; the parser
  appends its Rule and no NatRule.
\<close>

theorem policy_nat_without_pool_no_nat_rule:
  "list_ex (\<lambda>l. startswith l ''set nat enable'') (tl policy_nat_no_pool)
   \<and> map_sum id (\<lambda>c. (length (rules c), length (nat_rules c)))
        (parse_policy_entry policy_nat_no_pool empty_config 1) = Inr (1, 0)"
  by code_simp

text \<open>
  C10, amended: \<open>_parse_policy_entry\<close> appends exactly one Rule for the entry, and it appends
  a NatRule exactly when the entry holds a \<open>set nat enable\<close> line and its last
  \<open>set poolname\<close> line has a non-empty value; that NatRule carries the policy's source set as
  original-source and the pool name as translated-source. A policy with NAT enabled and no
  pool name yields the Rule only.
\<close>

theorem policy_nat_rule_needs_pool:
  assumes lines: "entry_lines = l0 # ls"
  shows "\<exists>config' rule.
           parse_policy_entry entry_lines config sequence_id = Inr config'
         \<and> rules config' = rules config @ [rule]
         \<and> nat_rules config'
             = nat_rules config
               @ (if (\<exists>l \<in> set ls. startswith l ''set nat enable'') \<and> truthy (pool_of ls)
                  then [policy_nat_rule sequence_id entry_lines rule (pool_of ls)] else [])
         \<and> n_original_source (policy_nat_rule sequence_id entry_lines rule (pool_of ls))
             = r_source rule
         \<and> n_translated_source (policy_nat_rule sequence_id entry_lines rule (pool_of ls))
             = pool_of ls"
proof -
  let ?sc = "fold policy_scan_line ls (policy_scan_init sequence_id entry_lines (get_edit_value l0))"
  let ?rule = "policy_defaults (p_rule ?sc)"
  have n: "is_nat_enabled ?sc = (\<exists>l \<in> set ls. startswith l ''set nat enable'')"
    by (simp add: scan_nat_enabled policy_scan_init_def)
  have p: "nat_pool_name ?sc = pool_of ls"
    by (simp add: scan_pool_name policy_scan_init_def pool_of_def split: option.splits)
  show ?thesis
    apply (rule exI[of _ "if is_nat_enabled ?sc \<and> truthy (nat_pool_name ?sc)
              then config \<lparr> rules := rules config @ [?rule],
                     nat_rules := nat_rules config
                       @ [policy_nat_rule sequence_id entry_lines ?rule (nat_pool_name ?sc)] \<rparr>
              else config \<lparr> rules := rules config @ [?rule] \<rparr>"], rule exI[of _ ?rule])
    apply (simp add: lines parse_policy_entry_def Let_def policy_nat_rule_def)
    apply (insert n p, simp add: lines)
    apply blast
    done
qed

theorem policy_nat_rule_needs_pool_witness:
  "\<exists>config' rule.
      parse_policy_entry policy_nat_pool empty_config 1 = Inr config'
    \<and> rules config' = [rule]
    \<and> nat_rules config' = [policy_nat_rule 1 policy_nat_pool rule (Some ''pool1'')]
    \<and> r_source rule = [''LAN'']"
proof -
  have h0: "policy_nat_pool = hd policy_nat_pool # tl policy_nat_pool" by code_simp
  have c: "(\<exists>l \<in> set (tl policy_nat_pool). startswith l ''set nat enable'')
           \<and> truthy (pool_of (tl policy_nat_pool))" by code_simp
  have pv: "pool_of (tl policy_nat_pool) = Some ''pool1''" by code_simp
  have e: "rules empty_config = []" "nat_rules empty_config = []"
    by (simp_all add: empty_config_def)
  from policy_nat_rule_needs_pool[OF h0, of empty_config 1]
  obtain config' rule where
        r: "parse_policy_entry policy_nat_pool empty_config 1 = Inr config'"
    and rs: "rules config' = rules empty_config @ [rule]"
    and ns: "nat_rules config'
             = nat_rules empty_config
               @ (if (\<exists>l \<in> set (tl policy_nat_pool). startswith l ''set nat enable'')
                     \<and> truthy (pool_of (tl policy_nat_pool))
                  then [policy_nat_rule 1 policy_nat_pool rule (pool_of (tl policy_nat_pool))]
                  else [])"
    by blast
  have rs': "rules config' = [rule]" using rs e by simp
  have ns': "nat_rules config' = [policy_nat_rule 1 policy_nat_pool rule (Some ''pool1'')]"
    using ns[unfolded if_P[OF c]] unfolding pv e by simp
  have "map_sum id (\<lambda>c. map r_source (rules c)) (parse_policy_entry policy_nat_pool empty_config 1)
          = Inr [[''LAN'']]" by code_simp
  then have "r_source rule = [''LAN'']" using r rs' by simp
  then show ?thesis using r rs' ns' by blast
qed

section \<open>Properties of the generators: what \<open>generate\<close> does to the IR\<close>

lemma set_replace_fold:
  "set (fold (\<lambda>item new_col. case map_of m item of
                              Some d \<Rightarrow> py_add d new_col
                            | None \<Rightarrow> py_add item new_col) xs acc)
     = set acc \<union> rename m ` set xs"
  by (induction xs arbitrary: acc) (auto simp: rename_def set_py_add split: option.splits)

lemma set_replace_in_collection: "set (replace_in_collection m xs) = rename m ` set xs"
  unfolding replace_in_collection_def by (simp add: set_replace_fold)

lemma rename_empty: "rename [] x = x"
  by (simp add: rename_def)

subsection \<open>The replacement map\<close>

lemma match_default_same:
  "match_default svc = map_option fst (find (same_as_default svc) FORTINET_DEFAULTS)"
proof -
  have "(\<lambda>(def_name, def_proto, def_port).
            def_proto = lower (s_protocol svc)
            \<and> (def_port = None \<or> normalize_port (s_port svc) = def_port))
        = same_as_default svc"
    by (auto simp: fun_eq_iff same_as_default_def)
  then show ?thesis by (simp add: match_default_def Let_def)
qed

lemma replacement_step:
  "(if s_name svc \<in> set (map fst FORTINET_DEFAULTS) then m
    else (case match_default svc of None \<Rightarrow> m | Some def_name \<Rightarrow> dict_set (s_name svc) def_name m))
   = (case canonical_default svc of None \<Rightarrow> m | Some d \<Rightarrow> dict_set (s_name svc) d m)"
  by (simp add: canonical_default_def match_default_same)

lemma replacement_fold:
  "map_of (fold (\<lambda>svc m. case canonical_default svc of
                             None \<Rightarrow> m
                           | Some d \<Rightarrow> dict_set (s_name svc) d m) svcs m0) n
     = (case find (\<lambda>s. s_name s = n \<and> canonical_default s \<noteq> None) (rev svcs) of
          None \<Rightarrow> map_of m0 n
        | Some s \<Rightarrow> canonical_default s)"
  by (induction svcs arbitrary: m0)
     (auto simp: find_snoc map_of_dict_set_iff split: option.splits)

lemma replacement_map_lookup:
  "map_of (build_replacement_map svcs) n = canonical_name svcs n"
  unfolding build_replacement_map_def canonical_name_def replacement_step
  by (simp add: replacement_fold split: option.splits)

lemma rename_replacement_map: "rename (build_replacement_map svcs) = canon svcs"
  by (simp add: fun_eq_iff rename_def canon_def replacement_map_lookup)

lemma replacement_map_keys:
  "(n \<notin> fst ` set (build_replacement_map svcs)) = (canonical_name svcs n = None)"
  using map_of_eq_None_iff[of "build_replacement_map svcs" n]
  by (simp add: replacement_map_lookup)

lemma canonical_name_None:
  "\<forall>s \<in> set svcs. canonical_default s = None \<Longrightarrow> canonical_name svcs n = None"
proof -
  assume a: "\<forall>s \<in> set svcs. canonical_default s = None"
  have "find (\<lambda>s. s_name s = n \<and> canonical_default s \<noteq> None) (rev svcs) = None"
    unfolding find_None_iff using a by simp
  then show ?thesis by (simp add: canonical_name_def)
qed

lemma replacement_map_empty:
  assumes "\<forall>s \<in> set svcs. canonical_default s = None"
  shows "build_replacement_map svcs = []"
proof (cases "build_replacement_map svcs")
  case Nil
  then show ?thesis .
next
  case (Cons kv rest)
  then have "map_of (build_replacement_map svcs) (fst kv) = Some (snd kv)" by simp
  then show ?thesis
    using canonical_name_None[OF assms, of "fst kv"] by (simp add: replacement_map_lookup)
qed

subsection \<open>The statements of \<open>generate\<close>\<close>

lemma exec_reads: "stmt \<noteq> Optimize \<Longrightarrow> fst (exec stmt st) = fst st"
  by (cases stmt; cases st) simp_all

lemma fold_exec_reads: "Optimize \<notin> set prog \<Longrightarrow> fst (fold exec prog st) = fst st"
  by (induction prog arbitrary: st) (auto simp: exec_reads)

lemma palo_alto_generate_ir: "fst (palo_alto_generate config) = config"
  unfolding palo_alto_generate_def
  by (subst fold_exec_reads) (simp_all add: palo_alto_statements_def)

lemma fortinet_generate_ir:
  "fst (fortinet_generate nat_mode source_vendor config) = optimize_configuration config"
proof -
  obtain rest where p: "fortinet_statements nat_mode source_vendor = Optimize # rest"
    and r: "Optimize \<notin> set rest"
    by (simp add: fortinet_statements_def)
  show ?thesis
    unfolding fortinet_generate_def p by (simp add: fold_exec_reads[OF r])
qed

lemma translated_canon:
  "(case ts of
      None \<Rightarrow> None
    | Some t \<Rightarrow> if t \<noteq> [] \<and> map_of (build_replacement_map svcs) t \<noteq> None
               then map_of (build_replacement_map svcs) t else Some t)
   = canon_opt svcs ts"
  by (auto simp: canon_opt_def canon_def replacement_map_lookup split: option.splits)

lemma canon_none: "build_replacement_map svcs = [] \<Longrightarrow> canonical_name svcs n = None"
  using replacement_map_lookup[of svcs n] by simp

lemma canon_id: "build_replacement_map svcs = [] \<Longrightarrow> canon svcs n = n"
  by (simp add: canon_def canon_none)

lemma canon_opt_id: "build_replacement_map svcs = [] \<Longrightarrow> canon_opt svcs ts = ts"
  by (cases ts) (auto simp: canon_opt_def canon_id)

subsection \<open>The frame\<close>

text \<open>
  C2, as stated, fails. The Fortinet generator starts with \<open>_optimize_configuration\<close>: the
  custom service \<open>my-http\<close> (tcp, \<open>eq 80\<close>) is the same as the default \<open>HTTP\<close>, so after
  \<open>generate\<close> the service set of the IR no longer holds it and the rule refers to \<open>HTTP\<close>.
\<close>

theorem fortinet_generate_changes_ir:
  "services (fst (fortinet_generate ''policy'' ''generic'' cfg_my_http)) \<noteq> services cfg_my_http
   \<and> map r_service (rules (fst (fortinet_generate ''policy'' ''generic'' cfg_my_http)))
       \<noteq> map r_service (rules cfg_my_http)"
  by code_simp

text \<open>
  C2, amended: running the Palo Alto generator leaves the IR unchanged. Running the Fortinet
  generator changes the IR only through its service canonicalization: a service whose name
  is not a FortiOS default name is canonicalized to the first default of the table that has
  its protocol (in lower case) and either no port or its normalized port, and a name is
  canonicalized as the last service of that name that is canonicalized. After \<open>generate\<close>
  every service with a canonicalized name is removed from the service set; in the service set
  of every rule, the original-service set of every NAT rule and the member set of every
  service group each canonicalized name is replaced by its default; the translated service of
  every NAT rule, unless it is \<open>None\<close> or empty, is replaced in the same way; the addresses,
  address groups, time ranges, interfaces, security profiles, static routes, raw routing text
  and warnings, and every other field of every rule, NAT rule and service group are equal to
  their values before the call. When no service is canonicalized, the IR is unchanged.
\<close>

theorem generate_frame:
  fixes config :: FirewallConfig and nat_mode source_vendor :: string
  defines "svcs \<equiv> services config"
  defines "config' \<equiv> fst (fortinet_generate nat_mode source_vendor config)"
  shows "fst (palo_alto_generate config) = config
       \<and> addresses config' = addresses config
       \<and> address_groups config' = address_groups config
       \<and> time_ranges config' = time_ranges config
       \<and> interfaces config' = interfaces config
       \<and> security_profiles config' = security_profiles config
       \<and> static_routes config' = static_routes config
       \<and> dynamic_routing_config config' = dynamic_routing_config config
       \<and> conversion_warnings config' = conversion_warnings config
       \<and> services config' = filter (\<lambda>s. canonical_name svcs (s_name s) = None) svcs
       \<and> length (rules config') = length (rules config)
       \<and> (\<forall>k < length (rules config).
             rules config' ! k = (rules config ! k) \<lparr> r_service := r_service (rules config' ! k) \<rparr>
           \<and> set (r_service (rules config' ! k)) = canon svcs ` set (r_service (rules config ! k)))
       \<and> length (nat_rules config') = length (nat_rules config)
       \<and> (\<forall>k < length (nat_rules config).
             nat_rules config' ! k
               = (nat_rules config ! k)
                   \<lparr> n_original_service := n_original_service (nat_rules config' ! k),
                     n_translated_service := canon_opt svcs (n_translated_service (nat_rules config ! k)) \<rparr>
           \<and> set (n_original_service (nat_rules config' ! k))
               = canon svcs ` set (n_original_service (nat_rules config ! k)))
       \<and> length (service_groups config') = length (service_groups config)
       \<and> (\<forall>k < length (service_groups config).
             service_groups config' ! k
               = (service_groups config ! k) \<lparr> sg_members := sg_members (service_groups config' ! k) \<rparr>
           \<and> set (sg_members (service_groups config' ! k))
               = canon svcs ` set (sg_members (service_groups config ! k)))
       \<and> ((\<forall>s \<in> set svcs. canonical_default s = None) \<longrightarrow> config' = config)"
proof -
  have pa: "fst (palo_alto_generate config) = config" by (rule palo_alto_generate_ir)
  have c: "config' = optimize_configuration config"
    unfolding config'_def by (rule fortinet_generate_ir)
  show ?thesis
  proof (cases "build_replacement_map svcs = []")
    case True
    then have "config' = config"
      by (simp add: c svcs_def optimize_configuration_def Let_def)
    then show ?thesis
      using pa
      by (simp add: svcs_def[symmetric] canon_id[OF True] canon_opt_id[OF True] canon_none[OF True])
  next
    case False
    then have "\<not> (\<forall>s \<in> set svcs. canonical_default s = None)"
      using replacement_map_empty by blast
    then have ne: "(\<forall>s \<in> set svcs. canonical_default s = None) = False" by simp
    from False show ?thesis
      using pa
      by (simp add: ne c svcs_def[symmetric] optimize_configuration_def Let_def
            set_replace_in_collection rename_replacement_map replacement_map_keys translated_canon)
  qed
qed

theorem generate_frame_witness:
  "set (r_service (rules (fst (fortinet_generate ''policy'' ''generic'' cfg_my_http)) ! 0))
     = {''HTTP'', ''TCP-8443''}
   \<and> set (n_original_service (nat_rules (fst (fortinet_generate ''policy'' ''generic'' cfg_my_http)) ! 0))
     = {''ALL_ICMP'', ''TCP-8443''}
   \<and> n_translated_service (nat_rules (fst (fortinet_generate ''policy'' ''generic'' cfg_my_http)) ! 0)
     = Some ''HTTP''
   \<and> set (sg_members (service_groups (fst (fortinet_generate ''policy'' ''generic'' cfg_my_http)) ! 0))
     = {''HTTP'', ''TCP-8443''}
   \<and> fst (fortinet_generate ''central'' ''generic'' cfg_plain) = cfg_plain"
proof -
  let ?c = "fst (fortinet_generate ''policy'' ''generic'' cfg_my_http)"
  let ?svcs = "services cfg_my_http"
  have r0: "(0::nat) < length (rules cfg_my_http)" by code_simp
  have n0: "(0::nat) < length (nat_rules cfg_my_http)" by code_simp
  have g0: "(0::nat) < length (service_groups cfg_my_http)" by code_simp
  have rv: "canon ?svcs ` set (r_service (rules cfg_my_http ! 0)) = {''HTTP'', ''TCP-8443''}"
    by code_simp
  have nv: "canon ?svcs ` set (n_original_service (nat_rules cfg_my_http ! 0))
              = {''ALL_ICMP'', ''TCP-8443''}" by code_simp
  have tv: "canon_opt ?svcs (n_translated_service (nat_rules cfg_my_http ! 0)) = Some ''HTTP''"
    by code_simp
  have gv: "canon ?svcs ` set (sg_members (service_groups cfg_my_http ! 0)) = {''HTTP'', ''TCP-8443''}"
    by code_simp
  have pl: "\<forall>s \<in> set (services cfg_plain). canonical_default s = None" by code_simp
  note f = generate_frame[where nat_mode = "''policy''" and source_vendor = "''generic''"
                         and config = cfg_my_http]
  have a: "set (r_service (rules ?c ! 0)) = canon ?svcs ` set (r_service (rules cfg_my_http ! 0))"
    using f r0 by blast
  have "nat_rules ?c ! 0
          = (nat_rules cfg_my_http ! 0)
              \<lparr> n_original_service := n_original_service (nat_rules ?c ! 0),
                n_translated_service := canon_opt ?svcs (n_translated_service (nat_rules cfg_my_http ! 0)) \<rparr>
        \<and> set (n_original_service (nat_rules ?c ! 0))
            = canon ?svcs ` set (n_original_service (nat_rules cfg_my_http ! 0))"
    using f n0 by blast
  then have nn: "nat_rules ?c ! 0
          = (nat_rules cfg_my_http ! 0)
              \<lparr> n_original_service := n_original_service (nat_rules ?c ! 0),
                n_translated_service := canon_opt ?svcs (n_translated_service (nat_rules cfg_my_http ! 0)) \<rparr>"
    and b: "set (n_original_service (nat_rules ?c ! 0))
            = canon ?svcs ` set (n_original_service (nat_rules cfg_my_http ! 0))"
    by (rule conjunct1, rule conjunct2)
  have t: "n_translated_service (nat_rules ?c ! 0)
            = canon_opt ?svcs (n_translated_service (nat_rules cfg_my_http ! 0))"
    using arg_cong[OF nn, of n_translated_service] by simp
  have g: "set (sg_members (service_groups ?c ! 0))
            = canon ?svcs ` set (sg_members (service_groups cfg_my_http ! 0))"
    using f g0 by blast
  have p: "fst (fortinet_generate ''central'' ''generic'' cfg_plain) = cfg_plain"
    using generate_frame[where nat_mode = "''central''" and source_vendor = "''generic''"
                          and config = cfg_plain] pl by blast
  show ?thesis
    unfolding a b t g rv nv tv gv using p by simp
qed

section \<open>Properties of the Palo Alto generator\<close>

subsection \<open>Destinations of a security rule\<close>






lemma rule_lines_category:
  "RuleCmd (get_cmd_prefix opts ''rule'') (emitted_name rule rc) ''category''
      (if snd (split_destinations st m rule) \<noteq> []
       then VList (sort (snd (split_destinations st m rule))) else VAny)
     \<in> set (pa_rule_lines opts izm st m rule rc)"
proof -
  obtain fin cats where sd: "split_destinations st m rule = (fin, cats)"
    by (cases "split_destinations st m rule")
  show ?thesis by (simp add: pa_rule_lines_def Let_def emitted_name_def sd)
qed









text \<open>Scenario 6 of the specification, evaluated.\<close>

lemma dnat_scenario:
  "rule_values ''destination'' (snd (pa_addresses_then_rules default_pa_options cfg_one_dnat))
     = [VList [''Ext1'']]"
  by code_simp

subsection \<open>Wildcard FQDN objects\<close>

text \<open>
  C5 at a failing input. \<open>WildSite\<close> is a wildcard FQDN object; a NAT rule has it as
  original-destination and \<open>WebSrv\<close> as translated-destination; a rule has the destinations
  \<open>WebSrv\<close> and \<open>WildSite\<close>. The address section writes no address command for
  \<open>WildSite\<close> and one URL category, and the emitted rule has \<open>WildSite\<close> in its category
  list; but its destination list is \<open>[ "WildSite" ]\<close>, because the DNAT rewrite of \<open>WebSrv\<close>
  brings the name back.
\<close>

theorem wildcard_name_returns_through_dnat:
  "is_wildcard_fqdn wild_site
   \<and> wild_site \<in> set (addresses cfg_wild_dnat)
   \<and> a_name wild_site \<in> set (r_destination rule_wild)
   \<and> rule_wild \<in> set (rules cfg_wild_dnat)
   \<and> fst (pa_addresses_then_rules default_pa_options cfg_wild_dnat)
       = [Text (''# --- Object Address ---'' @ nl),
          AddressCmd ''set'' ''WebSrv'' ''ip-netmask'' ''10.0.0.5/32'',
          Text (nl @ ''# --- Custom URL Categories ---'' @ nl)]
         @ url_category_lines ''set'' (''WildSite'', ''*.example.com'')
         @ [Text (nl @ ''# --- NAT Pool Objects ---'' @ nl), Text nl]
   \<and> rule_values ''category'' (snd (pa_addresses_then_rules default_pa_options cfg_wild_dnat))
       = [VList [''WildSite'']]
   \<and> rule_values ''destination'' (snd (pa_addresses_then_rules default_pa_options cfg_wild_dnat))
       = [VList [''WildSite'']]"
  by code_simp

text \<open>Scenario 5 of the specification, evaluated: the rule towards the wildcard object alone.\<close>

lemma wildcard_scenario:
  "fst (pa_addresses_then_rules default_pa_options cfg_wild)
     = [Text (''# --- Object Address ---'' @ nl),
        Text (nl @ ''# --- Custom URL Categories ---'' @ nl)]
       @ url_category_lines ''set'' (''WildSite'', ''*.example.com'')
       @ [Text (nl @ ''# --- NAT Pool Objects ---'' @ nl), Text nl]
   \<and> rule_values ''destination'' (snd (pa_addresses_then_rules default_pa_options cfg_wild)) = [VAny]
   \<and> rule_values ''category'' (snd (pa_addresses_then_rules default_pa_options cfg_wild))
       = [VList [''WildSite'']]"
  by code_simp

section \<open>Order of rendering\<close>

text \<open>
  C1: the generators do not render every set in sorted order, and their output is not a
  function of the IR as a value. The Fortinet \<open>_generate_addresses\<close> writes the address
  objects in the order in which the set \<open>config.addresses\<close> iterates: the two configurations
  below hold the same set of addresses, the section text differs, and for the second one it
  lists \<open>beta\<close> before \<open>alpha\<close>. The Palo Alto \<open>_generate_rules\<close> sorts the sources and
  the destinations of a rule and writes its services in the order in which the set
  \<open>rule.service\<close> iterates.
\<close>

theorem output_follows_set_iteration_order:
  "set (addresses cfg_beta_alpha) = set (addresses cfg_alpha_beta)
   \<and> fortinet_generate_addresses cfg_beta_alpha \<noteq> fortinet_generate_addresses cfg_alpha_beta
   \<and> fortinet_generate_addresses cfg_beta_alpha
       = ''config firewall address'' @ nl
         @ ''    edit '' @ dq @ ''beta'' @ dq @ nl
         @ ''        set subnet 10.0.0.2 255.255.255.255'' @ nl
         @ ''    next'' @ nl
         @ ''    edit '' @ dq @ ''alpha'' @ dq @ nl
         @ ''        set subnet 10.0.0.1 255.255.255.255'' @ nl
         @ ''    next'' @ nl
         @ ''end'' @ nl @ nl
   \<and> set (r_service rule_svc_ba) = set (r_service rule_svc_ab)
   \<and> rule_values ''service''
         (pa_generate_rules default_pa_options [] (empty_config \<lparr> rules := [rule_svc_ba] \<rparr>)
            (pa_init_state empty_config))
       = [VList [''svc-b'', ''svc-a'']]
   \<and> rule_values ''service''
         (pa_generate_rules default_pa_options [] (empty_config \<lparr> rules := [rule_svc_ab] \<rparr>)
            (pa_init_state empty_config))
       = [VList [''svc-a'', ''svc-b'']]
   \<and> render_all (pa_generate_rules default_pa_options [] (empty_config \<lparr> rules := [rule_svc_ba] \<rparr>)
            (pa_init_state empty_config))
       \<noteq> render_all (pa_generate_rules default_pa_options [] (empty_config \<lparr> rules := [rule_svc_ab] \<rparr>)
            (pa_init_state empty_config))"
  by code_simp

section \<open>Properties of the Cisco ASA parser\<close>

text \<open>The plain line and the unidirectional line, as the specification describes them.\<close>

lemma static_nat_plain_line:
  "parse_nat_rule_line line_static empty_config ''default'' [] 1
     = (empty_config \<lparr> nat_rules :=
          [spec_forward 1 ''inside'' ''outside'' ''SRV-REAL'' ''SRV-MAPPED'' True line_static,
           spec_reverse 2 ''inside'' ''outside'' ''SRV-REAL'' ''SRV-MAPPED'' True] \<rparr>, 3)"
  by code_simp

lemma static_nat_unidirectional_line:
  "parse_nat_rule_line line_static_unidirectional empty_config ''default'' [] 1
     = (empty_config \<lparr> nat_rules :=
          [spec_forward 1 ''inside'' ''outside'' ''SRV-REAL'' ''SRV-MAPPED'' True
             line_static_unidirectional] \<rparr>, 2)"
  by code_simp

text \<open>
  C8 at failing inputs. The pattern of the manual static NAT ends in \<open>$\<close> right after the
  mapped object and the optional \<open>unidirectional\<close>. A manual static NAT line without
  \<open>unidirectional\<close> that goes on with \<open>inactive\<close>, with a \<open>service\<close> clause or with
  \<open>no-proxy-arp\<close> matches none of the four patterns: the parser appends no NatRule at all
  and returns the sequence number unchanged.
\<close>

theorem static_nat_with_trailing_keyword_dropped:
  "\<not> contains ''unidirectional'' line_static_inactive
   \<and> startswith (lower line_static_inactive) ''nat (''
   \<and> contains ''source static SRV-REAL SRV-MAPPED'' line_static_inactive
   \<and> parse_nat_rule_line line_static_inactive empty_config ''default'' [] 1 = (empty_config, 1)
   \<and> parse_nat_rule_line line_static_service empty_config ''default'' [] 1 = (empty_config, 1)
   \<and> parse_nat_rule_line line_static_no_proxy_arp empty_config ''default'' [] 1 = (empty_config, 1)
   \<and> length (nat_rules (fst (parse_nat_rule_line line_static empty_config ''default'' [] 1))) = 2"
  by code_simp

end
